theory Spec2Isabelle
  imports Complex_Main
begin

section \<open>Data model\<close>

text \<open>
  The module \<^verbatim>\<open>unravel/stream.py\<close> works on numpy arrays. A tractogram is the pair
  \<^verbatim>\<open>streams_data\<close> (all points of all streamlines, flattened, one row of three
  coordinates per point) and \<^verbatim>\<open>streams._offsets\<close> (the index of the first point of
  each streamline). Coordinates are modelled as real numbers; a row of a \<^verbatim>\<open>(n, 3)\<close>
  array is a triple. Exceptions raised by numpy are values of \<open>py_error\<close>.
\<close>

type_synonym point = "real \<times> real \<times> real"

datatype py_error = IndexError | AxisError | ValueError

fun vsub :: "point \<Rightarrow> point \<Rightarrow> point" where
  "vsub (a, b, c) (x, y, z) = (a - x, b - y, c - z)"

fun vadd :: "point \<Rightarrow> point \<Rightarrow> point" where
  "vadd (a, b, c) (x, y, z) = (a + x, b + y, c + z)"

fun vdiv :: "point \<Rightarrow> real \<Rightarrow> point" where
  "vdiv (a, b, c) k = (a / k, b / k, c / k)"

text \<open>\<^verbatim>\<open>np.sum(u*v)\<close> for two rows.\<close>

fun dot :: "point \<Rightarrow> point \<Rightarrow> real" where
  "dot (a, b, c) (x, y, z) = a * x + b * y + c * z"

text \<open>\<^verbatim>\<open>np.linalg.norm\<close> of a row.\<close>

definition norm3 :: "point \<Rightarrow> real" where
  "norm3 p = sqrt (dot p p)"

definition zero3 :: point where
  "zero3 = (0, 0, 0)"

text \<open>\<^verbatim>\<open>np.mean(points, axis=0)\<close> on a non-empty selection of rows.\<close>

definition mean_points :: "point list \<Rightarrow> point" where
  "mean_points ps =
     (sum_list (map fst ps) / real (length ps),
      sum_list (map (fst \<circ> snd) ps) / real (length ps),
      sum_list (map (snd \<circ> snd) ps) / real (length ps))"

text \<open>\<^verbatim>\<open>np.median(xs)\<close> on a non-empty array, and per axis on rows.\<close>

definition median :: "real list \<Rightarrow> real" where
  "median xs =
     (let s = sort xs; n = length s
      in if odd n then s ! (n div 2) else (s ! (n div 2 - 1) + s ! (n div 2)) / 2)"

definition median_points :: "point list \<Rightarrow> point" where
  "median_points ps =
     (median (map fst ps), median (map (fst \<circ> snd) ps), median (map (snd \<circ> snd) ps))"

section \<open>Crossing detection\<close>

text \<open>\<^verbatim>\<open>np.roll(sign, 1)\<close>: element \<open>k\<close> of the result is element \<open>k - 1\<close> of the
  argument, and element 0 is the last one.\<close>

definition roll1 :: "'a list \<Rightarrow> 'a list" where
  "roll1 xs = (if xs = [] then [] else last xs # butlast xs)"

text \<open>\<^verbatim>\<open>np.where(np.sum(ns*normal, axis=1) > 0, 1, 0)\<close> with
  \<^verbatim>\<open>ns = streams_data - midpoint\<close>.\<close>

definition plane_sign :: "point list \<Rightarrow> point \<Rightarrow> point \<Rightarrow> int list" where
  "plane_sign streams_data midpoint normal =
     map (\<lambda>p. if dot (vsub p midpoint) normal > 0 then 1 else 0) streams_data"

text \<open>\<^verbatim>\<open>np.where(np.sum(ns*normal, axis=1) > 0, 1, -1)\<close>, the side of a plane, for
  an array of points and for one point.\<close>

definition side :: "point \<Rightarrow> point \<Rightarrow> point \<Rightarrow> int" where
  "side p origin normal = (if dot (vsub p origin) normal > 0 then 1 else -1)"

text \<open>\<^verbatim>\<open>np.argwhere(abs(np.roll(sign, 1)-sign) == 1)\<close>.\<close>

definition sign_changes :: "int list \<Rightarrow> nat list" where
  "sign_changes sign =
     filter (\<lambda>k. abs (roll1 sign ! k - sign ! k) = 1) [0..<length sign]"

text \<open>\<^verbatim>\<open>np.array(list(filter(lambda x: x not in excluded, idx)))\<close>.\<close>

definition drop_members :: "nat list \<Rightarrow> nat list \<Rightarrow> nat list" where
  "drop_members excluded idx = filter (\<lambda>x. x \<notin> set excluded) idx"

text \<open>The lines shared by the three detectors: the sign of every point, the indices
  where it changes, and the removal of the indices in \<^verbatim>\<open>streams._offsets\<close>.\<close>

definition plane_crossings :: "point list \<Rightarrow> nat list \<Rightarrow> point \<Rightarrow> point \<Rightarrow> nat list" where
  "plane_crossings streams_data offsets midpoint normal =
     drop_members offsets (sign_changes (plane_sign streams_data midpoint normal))"

section \<open>Skeleton builder: the loop of \<^verbatim>\<open>extract_nodes\<close>\<close>

text \<open>Lines 85 to 90: the two arrays, with the end nodes written.\<close>

definition init_arrays :: "nat \<Rightarrow> point \<Rightarrow> point \<Rightarrow> point list \<times> point list" where
  "init_arrays level m_start m_end =
     (let n = 2 ^ level + 1;
          point_array = (replicate n zero3)[0 := m_start];
          point_array = point_array[n - 1 := m_end];
          normal_array = (replicate n zero3)[0 := vsub m_start m_end];
          normal_array = normal_array[n - 1 := vsub m_start m_end]
      in (point_array, normal_array))"

text \<open>Lines 103 to 122: \<^verbatim>\<open>idx_filter\<close>, the indices of the points that are not on
  the midpoint's side of both the plane at \<^verbatim>\<open>m_start\<close> and the plane at \<^verbatim>\<open>m_end\<close>.\<close>

definition idx_filter :: "point list \<Rightarrow> point \<Rightarrow> point \<Rightarrow> point \<Rightarrow> point \<Rightarrow> point \<Rightarrow> nat list" where
  "idx_filter streams_data m_start normal_previous m_end normal_next midpoint =
     (let mp_sign_previous = side midpoint m_start normal_previous;
          mp_sign_next = side midpoint m_end normal_next;
          sign_previous = map (\<lambda>p. if side p m_start normal_previous = mp_sign_previous
                                    then 1 else 0) streams_data;
          sign_next = map (\<lambda>p. if side p m_end normal_next = mp_sign_next
                                then 1 else 0) streams_data
      in filter (\<lambda>k. sign_next ! k + sign_previous ! k \<noteq> (2::int)) [0..<length streams_data])"

text \<open>Lines 124 to 130: the indices that pass the crossing test and both filters.\<close>

definition window_idx :: "point list \<Rightarrow> nat list \<Rightarrow> point \<Rightarrow> point \<Rightarrow> point \<Rightarrow> point \<Rightarrow> nat list" where
  "window_idx streams_data offsets m_start normal_previous m_end normal_next =
     (let midpoint = vdiv (vadd m_start m_end) 2;
          normal = vsub m_start m_end
      in drop_members
           (idx_filter streams_data m_start normal_previous m_end normal_next midpoint)
           (plane_crossings streams_data offsets midpoint normal))"

text \<open>Lines 132 to 137. An empty \<^verbatim>\<open>idx\<close> is a float array, indexing with it raises
  \<^verbatim>\<open>IndexError\<close>, and the handler writes the midpoint.\<close>

definition node_position :: "point list \<Rightarrow> nat list \<Rightarrow> point \<Rightarrow> point" where
  "node_position streams_data idx midpoint =
     (if idx = [] then midpoint else mean_points (map (\<lambda>k. streams_data ! k) idx))"

text \<open>One pass of the body of the inner loop (lines 95 to 137), for window \<open>i\<close> of
  level \<open>j\<close>.\<close>

definition window_step ::
  "point list \<Rightarrow> nat list \<Rightarrow> nat \<Rightarrow> nat \<Rightarrow> nat \<Rightarrow> point list \<times> point list
     \<Rightarrow> point list \<times> point list" where
  "window_step streams_data offsets level j i s =
     (let point_array = fst s; normal_array = snd s;
          stride = 2 ^ (level - j - 1);
          m_start = point_array ! (stride * 2 * i);
          m_end = point_array ! (stride * (2 * i + 2));
          midpoint = vdiv (vadd m_start m_end) 2;
          normal = vsub m_start m_end;
          normal_array = normal_array[stride * (2 * i + 1) := normal];
          normal_previous = normal_array ! (stride * (2 * i));
          normal_next = normal_array ! (stride * (2 * i + 2));
          idx = window_idx streams_data offsets m_start normal_previous m_end normal_next
      in (point_array[stride * (2 * i + 1) := node_position streams_data idx midpoint],
          normal_array))"

definition level_pass ::
  "point list \<Rightarrow> nat list \<Rightarrow> nat \<Rightarrow> nat \<Rightarrow> point list \<times> point list
     \<Rightarrow> point list \<times> point list" where
  "level_pass streams_data offsets level j s =
     fold (window_step streams_data offsets level j) [0..<2 ^ j] s"

definition build_skeleton ::
  "point list \<Rightarrow> nat list \<Rightarrow> nat \<Rightarrow> point \<Rightarrow> point \<Rightarrow> point list" where
  "build_skeleton streams_data offsets level m_start m_end =
     fst (fold (level_pass streams_data offsets level) [0..<level]
            (init_arrays level m_start m_end))"

section \<open>Streamline lookup: \<^verbatim>\<open>get_streamline_number_from_index\<close>\<close>

text \<open>The argument \<^verbatim>\<open>index\<close> is a Python \<^verbatim>\<open>int\<close>, a one-dimensional array (as
  \<^verbatim>\<open>idx[j]\<close>, of shape \<^verbatim>\<open>(1,)\<close>) or a column (as \<^verbatim>\<open>idx\<close>, of shape \<^verbatim>\<open>(k, 1)\<close>).\<close>

datatype index_arg = PyInt nat | Array1 "nat list" | Column "nat list"

text \<open>One row of \<^verbatim>\<open>np.argwhere(np.roll(isin, -1) - isin == 1)\<close>, where
  \<^verbatim>\<open>isin = np.where(offsets - index > 0, 1, 0)\<close> and \<^verbatim>\<open>offsets\<close> has the number of
  points appended: the positions \<open>c\<close> with \<open>isin[c] = 0\<close> and \<open>isin[c + 1] = 1\<close>, the
  successor of the last position being position 0.\<close>

definition owner_row :: "nat list \<Rightarrow> nat \<Rightarrow> nat list" where
  "owner_row offsets_ext index =
     (let isin = map (\<lambda>off. if off > index then (1::int) else 0) offsets_ext;
          n = length isin
      in filter (\<lambda>c. isin ! (Suc c mod n) - isin ! c = 1) [0..<n])"

text \<open>With an \<^verbatim>\<open>int\<close> the first match is returned (\<^verbatim>\<open>[0][0]\<close> raises \<^verbatim>\<open>IndexError\<close>
  when there is none). Otherwise \<^verbatim>\<open>np.roll(isin, -1, axis=1)\<close> runs: on the
  one-dimensional \<^verbatim>\<open>isin\<close> obtained from an array of shape \<^verbatim>\<open>(1,)\<close> there is no axis 1
  and numpy raises \<^verbatim>\<open>AxisError\<close>; on a column each row is searched.\<close>

fun get_streamline_number_from_index ::
  "nat list \<Rightarrow> nat \<Rightarrow> index_arg \<Rightarrow> py_error + nat list" where
  "get_streamline_number_from_index offsets n_points (PyInt index) =
     (case owner_row (offsets @ [n_points]) index of
        [] \<Rightarrow> Inl IndexError
      | c # _ \<Rightarrow> Inr [c])"
| "get_streamline_number_from_index offsets n_points (Array1 index) = Inl AxisError"
| "get_streamline_number_from_index offsets n_points (Column index) =
     Inr (concat (map (owner_row (offsets @ [n_points])) index))"

section \<open>Median and distance estimator: \<^verbatim>\<open>get_dist_from_median_trajectory\<close>\<close>

text \<open>Lines 241 to 255 for node \<open>i\<close>: the crossings of the plane through
  \<^verbatim>\<open>point_array[i]\<close>, without the streamline offsets and without the points on the far
  side of the center of mass. The center of mass comes from \<^verbatim>\<open>tract_to_ROI\<close>, which is
  outside this module, and is a parameter.\<close>

definition com_filter :: "point list \<Rightarrow> point \<Rightarrow> point \<Rightarrow> nat list" where
  "com_filter streams_data center midpoint =
     filter (\<lambda>k. dot (vsub midpoint center) (vsub (streams_data ! k) center) < 0)
       [0..<length streams_data]"

definition median_idx :: "point list \<Rightarrow> nat list \<Rightarrow> point \<Rightarrow> point list \<Rightarrow> nat \<Rightarrow> nat list" where
  "median_idx streams_data offsets center point_array i =
     (let midpoint = point_array ! i;
          normal = vsub (point_array ! (i - 1)) (point_array ! (i + 1))
      in drop_members (com_filter streams_data center midpoint)
           (plane_crossings streams_data offsets midpoint normal))"

text \<open>\<^verbatim>\<open>dist[i, n] = i_dist\<close>, for every streamline number in \<^verbatim>\<open>n\<close>.\<close>

definition set_dist :: "nat \<Rightarrow> nat list \<Rightarrow> real \<Rightarrow> real list list \<Rightarrow> real list list" where
  "set_dist i ns d dist_map =
     fold (\<lambda>n dist_map. dist_map[i := (dist_map ! i)[n := d]]) ns dist_map"

text \<open>Lines 270 to 273: the loop over the distances, each with its point index.\<close>

fun record_dists ::
  "nat list \<Rightarrow> nat \<Rightarrow> nat \<Rightarrow> (nat \<times> real) list \<Rightarrow> real list list
     \<Rightarrow> py_error + real list list" where
  "record_dists offsets n_points i [] dist_map = Inr dist_map"
| "record_dists offsets n_points i ((k, d) # rest) dist_map =
     (case get_streamline_number_from_index offsets n_points (Array1 [k]) of
        Inl e \<Rightarrow> Inl e
      | Inr ns \<Rightarrow> record_dists offsets n_points i rest (set_dist i ns d dist_map))"

text \<open>Lines 266 to 268: the distance of every retained crossing to the median.\<close>

definition idx_dist :: "point list \<Rightarrow> point \<Rightarrow> real list" where
  "idx_dist idx_pos med = map (\<lambda>p. norm3 (vsub p med)) idx_pos"

text \<open>The body of the loop for an interior node \<open>i\<close> (lines 241 to 273). With no
  crossing left, \<^verbatim>\<open>idx\<close> is an empty float array and \<^verbatim>\<open>np.take_along_axis\<close> raises
  \<^verbatim>\<open>IndexError\<close>, which nothing catches.\<close>

definition median_step ::
  "point list \<Rightarrow> nat list \<Rightarrow> point \<Rightarrow> point list \<Rightarrow> bool \<Rightarrow> nat
     \<Rightarrow> real list list \<times> point list \<Rightarrow> py_error + real list list \<times> point list" where
  "median_step streams_data offsets center point_array compute_dist i s =
     (let dist_map = fst s; median_array = snd s;
          idx = median_idx streams_data offsets center point_array i
      in if idx = [] then Inl IndexError
         else
           let idx_pos = map (\<lambda>k. streams_data ! k) idx;
               med = median_points idx_pos;
               median_array = median_array[i := med]
           in if \<not> compute_dist then Inr (dist_map, median_array)
              else
                (case record_dists offsets (length streams_data) i
                        (zip idx (idx_dist idx_pos med)) dist_map of
                   Inl e \<Rightarrow> Inl e
                 | Inr dist_map \<Rightarrow> Inr (dist_map, median_array)))"

text \<open>A \<^verbatim>\<open>for\<close> loop that an exception leaves.\<close>

fun for_each :: "('i \<Rightarrow> 's \<Rightarrow> py_error + 's) \<Rightarrow> 'i list \<Rightarrow> 's \<Rightarrow> py_error + 's" where
  "for_each body [] s = Inr s"
| "for_each body (i # rest) s =
     (case body i s of Inl e \<Rightarrow> Inl e | Inr s' \<Rightarrow> for_each body rest s')"

text \<open>The loop skips \<open>i = 0\<close> and stops at the last index, so its body runs for
  \<open>1 \<le> i < n - 1\<close>.\<close>

definition get_dist_from_median_trajectory ::
  "point list \<Rightarrow> nat list \<Rightarrow> point \<Rightarrow> point list \<Rightarrow> bool
     \<Rightarrow> py_error + real list list \<times> point list" where
  "get_dist_from_median_trajectory streams_data offsets center point_array compute_dist =
     (let dist_map = replicate (length point_array) (replicate (length offsets) 0);
          median_array = point_array
      in for_each (median_step streams_data offsets center point_array compute_dist)
           [1..<length point_array - 1] (dist_map, median_array))"

section \<open>Orientation of the end points: lines 61 to 79 of \<^verbatim>\<open>extract_nodes\<close>\<close>

definition coords :: "point \<Rightarrow> real list" where
  "coords p = [fst p, fst (snd p), snd (snd p)]"

text \<open>\<^verbatim>\<open>np.argmax\<close> and \<^verbatim>\<open>np.argmin\<close>: the first position of the extreme value.\<close>

definition argmax :: "real list \<Rightarrow> nat" where
  "argmax xs = (let m = fold max xs (hd xs) in length (takeWhile (\<lambda>x. x \<noteq> m) xs))"

definition argmin :: "real list \<Rightarrow> nat" where
  "argmin xs = (let m = fold min xs (hd xs) in length (takeWhile (\<lambda>x. x \<noteq> m) xs))"

text \<open>\<^verbatim>\<open>np.sum(np.where(m_start-m_end > 0, 1, -1))\<close>.\<close>

definition vote :: "point \<Rightarrow> point \<Rightarrow> int" where
  "vote m_start m_end =
     sum_list (map (\<lambda>d. if d > 0 then 1 else -1) (coords (vsub m_start m_end)))"

definition dominant_rule :: "point \<Rightarrow> point \<Rightarrow> bool" where
  "dominant_rule m_start m_end =
     (let diff_abs = map abs (coords (vsub m_start m_end));
          main_dir = argmax diff_abs
      in diff_abs ! main_dir > sum_list diff_abs - diff_abs ! main_dir)"

definition smallest_rule :: "point \<Rightarrow> point \<Rightarrow> bool" where
  "smallest_rule m_start m_end =
     (let diff_abs = map abs (coords (vsub m_start m_end));
          small_dir = argmin diff_abs
      in diff_abs ! small_dir < (sum_list diff_abs - diff_abs ! small_dir) / 4)"

definition orient :: "point \<Rightarrow> point \<Rightarrow> point \<times> point" where
  "orient m_start m_end =
     (let diff_abs = map abs (coords (vsub m_start m_end));
          main_dir = argmax diff_abs;
          small_dir = argmin diff_abs
      in if dominant_rule m_start m_end then
           (if coords m_start ! main_dir > coords m_end ! main_dir
            then (m_end, m_start) else (m_start, m_end))
         else if smallest_rule m_start m_end then
           (let idx = (if small_dir = 0 then 1 else 0)
            in if coords m_start ! idx > coords m_end ! idx
               then (m_end, m_start) else (m_start, m_end))
         else if vote m_start m_end > 0 then (m_end, m_start)
         else (m_start, m_end))"

text \<open>\<^verbatim>\<open>start[selec_streamlines]\<close>: the rows whose flag is set.\<close>

definition select_rows :: "bool list \<Rightarrow> 'a list \<Rightarrow> 'a list" where
  "select_rows flags rows = map snd (filter fst (zip flags rows))"

text \<open>Lines 61 to 79. The arrays \<^verbatim>\<open>start\<close> and \<^verbatim>\<open>end\<close> (one row per streamline, after
  the clustering of lines 44 to 54) and the flags \<^verbatim>\<open>selec_streamlines\<close> (lines 56 to 60)
  come from \<^verbatim>\<open>KMeans\<close> and \<^verbatim>\<open>np.percentile\<close> and are parameters.\<close>

definition resolve_ends :: "point list \<Rightarrow> point list \<Rightarrow> bool list \<Rightarrow> point \<times> point" where
  "resolve_ends start_pts end_pts selec_streamlines =
     orient (mean_points (select_rows selec_streamlines start_pts))
            (mean_points (select_rows selec_streamlines end_pts))"

section \<open>\<^verbatim>\<open>extract_nodes\<close>\<close>

definition extract_nodes ::
  "point list \<Rightarrow> nat list \<Rightarrow> point \<Rightarrow> point list \<Rightarrow> point list \<Rightarrow> bool list \<Rightarrow> nat \<Rightarrow> bool
     \<Rightarrow> py_error + point list" where
  "extract_nodes streams_data offsets center start_pts end_pts selec_streamlines level smooth =
     (let ends = resolve_ends start_pts end_pts selec_streamlines;
          point_array = build_skeleton streams_data offsets level (fst ends) (snd ends)
      in if smooth then
           (case get_dist_from_median_trajectory streams_data offsets center point_array False of
              Inl e \<Rightarrow> Inl e
            | Inr r \<Rightarrow> Inr (snd r))
         else Inr point_array)"

section \<open>Density outlier filter: \<^verbatim>\<open>remove_outlier_streamlines\<close>\<close>

text \<open>Lines 346 to 356 for node \<open>i\<close>: the normal is divided by its norm, and the
  only filter on the detected indices is the one on \<^verbatim>\<open>streams._offsets\<close>.\<close>

definition outlier_idx :: "point list \<Rightarrow> nat list \<Rightarrow> point list \<Rightarrow> nat \<Rightarrow> nat list" where
  "outlier_idx streams_data offsets point_array i =
     (let midpoint = point_array ! i;
          normal = vsub (point_array ! (i - 1)) (point_array ! (i + 1));
          normal = vdiv normal (norm3 normal)
      in plane_crossings streams_data offsets midpoint normal)"

text \<open>Lines 385 to 392. The density map \<^verbatim>\<open>dens\<close> (one row per node, one column per
  streamline) is filled by the kernel density estimate of \<^verbatim>\<open>sklearn\<close> and is a
  parameter, like the threshold \<^verbatim>\<open>t\<close>. \<^verbatim>\<open>np.mean(dens, axis=1, where=dens != 0)\<close> is
  the mean of the non-zero entries of a row; in a row without any, no entry is flagged
  whatever the mean is.\<close>

definition mean_nonzero :: "real list \<Rightarrow> real" where
  "mean_nonzero row =
     (let nz = filter (\<lambda>d. d \<noteq> 0) row in sum_list nz / real (length nz))"

definition outliers_of :: "real list list \<Rightarrow> real \<Rightarrow> bool list list" where
  "outliers_of dens t =
     (let flagged = map (\<lambda>row. map (\<lambda>d. d \<le> t \<and> d \<noteq> 0 \<and> \<not> d > mean_nonzero row) row) dens
      in butlast (tl flagged))"

text \<open>\<^verbatim>\<open>np.sum(outliers, axis=0)\<close> and \<^verbatim>\<open>np.sum(dens > 0, axis=0)\<close>, for
  \<open>n_curves\<close> columns.\<close>

definition column_count :: "nat \<Rightarrow> ('a \<Rightarrow> bool) \<Rightarrow> 'a list list \<Rightarrow> nat list" where
  "column_count n_curves p rows =
     map (\<lambda>c. length (filter (\<lambda>row. p (row ! c)) rows)) [0..<n_curves]"

text \<open>Python's \<^verbatim>\<open>int(x)\<close> on a float rounds towards zero, and \<^verbatim>\<open>xs[:k]\<close> with a
  negative \<open>k\<close> drops the last \<open>- k\<close> elements.\<close>

definition py_int :: "real \<Rightarrow> int" where
  "py_int x = (if 0 \<le> x then \<lfloor>x\<rfloor> else \<lceil>x\<rceil>)"

definition py_prefix :: "int \<Rightarrow> 'a list \<Rightarrow> 'a list" where
  "py_prefix k xs = (if 0 \<le> k then take (nat k) xs else take (length xs - nat (- k)) xs)"

text \<open>\<^verbatim>\<open>np.argsort(-n_sign)\<close>: the streamline numbers by decreasing count. The order
  among equal counts is not fixed by numpy's default sort; the stable order is taken.\<close>

definition argsort_decreasing :: "nat list \<Rightarrow> nat list" where
  "argsort_decreasing n_sign = sort_key (\<lambda>c. - int (n_sign ! c)) [0..<length n_sign]"

text \<open>Lines 394 to 403. \<^verbatim>\<open>np.argwhere\<close> gives a column, the slice of the sorted
  indices a one-dimensional array.\<close>

definition positional_outliers ::
  "nat \<Rightarrow> real list list \<Rightarrow> real \<Rightarrow> real \<Rightarrow> real \<Rightarrow> index_arg" where
  "positional_outliers n_curves dens t outlier_ratio keep_ratio =
     (let n_sign = column_count n_curves (\<lambda>b. b) (outliers_of dens t);
          n_val = column_count n_curves (\<lambda>d. d > 0) dens;
          n_idx = filter (\<lambda>c. real (n_sign ! c) > real (n_val ! c) * outlier_ratio)
                    [0..<n_curves]
      in if real (length n_idx) > keep_ratio * real (length n_sign) then
           (let sorted_indexes = argsort_decreasing n_sign;
                keep_num_idx = py_int (real (length n_sign) * keep_ratio)
            in Array1 (py_prefix keep_num_idx sorted_indexes))
         else Column n_idx)"

text \<open>\<^verbatim>\<open>np.concatenate\<close> of two index arrays: both must have the same number of
  dimensions.\<close>

fun np_concatenate :: "index_arg \<Rightarrow> index_arg \<Rightarrow> py_error + index_arg" where
  "np_concatenate (Column a) (Column b) = Inr (Column (a @ b))"
| "np_concatenate (Array1 a) (Array1 b) = Inr (Array1 (a @ b))"
| "np_concatenate _ _ = Inl ValueError"

fun entries :: "index_arg \<Rightarrow> nat list" where
  "entries (PyInt k) = [k]"
| "entries (Array1 ks) = ks"
| "entries (Column ks) = ks"

text \<open>\<^verbatim>\<open>remove_streamlines\<close>: the numbers of the streamlines that are yielded.\<close>

definition remove_streamlines :: "nat \<Rightarrow> index_arg \<Rightarrow> nat list" where
  "remove_streamlines n_curves idx =
     filter (\<lambda>i. i \<notin> set (entries idx)) [0..<n_curves]"

text \<open>Lines 385 to 453 of \<^verbatim>\<open>remove_outlier_streamlines\<close>: the numbers of the streamlines
  that are written back. \<^verbatim>\<open>n_idx_gaus\<close>, the column of the streamlines whose direction
  is an outlier (lines 405 to 446, from \<^verbatim>\<open>KMeans\<close> and \<^verbatim>\<open>KernelDensity\<close>), is a
  parameter.\<close>

definition remove_outlier_streamlines ::
  "nat \<Rightarrow> real list list \<Rightarrow> real \<Rightarrow> real \<Rightarrow> real \<Rightarrow> bool \<Rightarrow> nat list
     \<Rightarrow> py_error + nat list" where
  "remove_outlier_streamlines n_curves dens t outlier_ratio keep_ratio remove_outlier_dir
       n_idx_gaus =
     (let n_idx = positional_outliers n_curves dens t outlier_ratio keep_ratio
      in if remove_outlier_dir then
           (case np_concatenate n_idx (Column n_idx_gaus) of
              Inl e \<Rightarrow> Inl e
            | Inr n_idx \<Rightarrow> Inr (remove_streamlines n_curves n_idx))
         else Inr (remove_streamlines n_curves n_idx))"

text \<open>The number of components of \<open>m_start - m_end\<close> that are positive.\<close>

definition positive_components :: "point \<Rightarrow> point \<Rightarrow> nat" where
  "positive_components m_start m_end =
     length (filter (\<lambda>d. d > 0) (coords (vsub m_start m_end)))"

text \<open>The majority vote as the specification words it: for every streamline, the sign
  of every component of its \<open>start - end\<close>, summed over the streamlines.\<close>

definition spec_curve_vote :: "point list \<Rightarrow> point list \<Rightarrow> int" where
  "spec_curve_vote start_pts end_pts =
     sum_list (map (\<lambda>se. vote (fst se) (snd se)) (zip start_pts end_pts))"

section \<open>Section partitioner: \<^verbatim>\<open>get_roi_sections_from_nodes\<close>\<close>

text \<open>Python indexing of a sequence: an index from \<open>- n\<close> to \<open>- 1\<close> counts from the
  end, and an index outside \<open>- n\<close> to \<open>n - 1\<close> raises \<^verbatim>\<open>IndexError\<close> (\<open>None\<close>).\<close>

definition py_index :: "'a list \<Rightarrow> int \<Rightarrow> 'a option" where
  "py_index xs k =
     (let n = int (length xs)
      in if 0 \<le> k \<and> k < n then Some (xs ! nat k)
         else if - n \<le> k \<and> k < 0 then Some (xs ! nat (n + k))
         else None)"

text \<open>Lines 506 to 515: the two \<^verbatim>\<open>try\<close> blocks.\<close>

definition m_previous :: "point list \<Rightarrow> nat \<Rightarrow> point" where
  "m_previous point_array i =
     (case py_index point_array (int i - 2) of
        Some p \<Rightarrow> p
      | None \<Rightarrow> point_array ! (i - 1))"

definition m_next :: "point list \<Rightarrow> nat \<Rightarrow> point" where
  "m_next point_array i =
     (case py_index point_array (int i + 1) of
        Some p \<Rightarrow> p
      | None \<Rightarrow> point_array ! i)"

text \<open>The volume \<^verbatim>\<open>trk_roi\<close> comes from \<^verbatim>\<open>tract_to_ROI\<close>, outside this module: it is a
  parameter, given by its shape and its voxels in row-major order. Its center of mass
  \<^verbatim>\<open>center\<close> (line 492) is a parameter too: what is proved holds for every center. Lines 495 to 499:
  \<^verbatim>\<open>xyz_flat\<close>, the centre of every voxel.\<close>

type_synonym shape = "nat \<times> nat \<times> nat"

fun n_voxels :: "shape \<Rightarrow> nat" where
  "n_voxels (nx, ny, nz) = nx * ny * nz"

fun voxel_center :: "shape \<Rightarrow> nat \<Rightarrow> point" where
  "voxel_center (nx, ny, nz) v =
     (real (v div (ny * nz)) + 1 / 2, real ((v div nz) mod ny) + 1 / 2, real (v mod nz) + 1 / 2)"

definition xyz_flat :: "shape \<Rightarrow> point list" where
  "xyz_flat sh = map (voxel_center sh) [0..<n_voxels sh]"

text \<open>Lines 516 to 537: \<^verbatim>\<open>sign_mp_slice\<close>, 1 for the voxels between the two planes of
  section \<open>i\<close>.\<close>

definition sign_mp_slice :: "shape \<Rightarrow> point list \<Rightarrow> nat \<Rightarrow> int list" where
  "sign_mp_slice sh point_array i =
     (let m_start = point_array ! (i - 1);
          m_end = point_array ! i;
          midpoint = vdiv (vadd m_start m_end) 2;
          n_start = vsub (m_previous point_array i) m_end;
          n_end = vsub m_start (m_next point_array i);
          n_mp_start = vsub m_start midpoint;
          n_mp_end = vsub midpoint m_end;
          sign_mp_start = (if dot n_start n_mp_start > 0 then 1 else - 1 :: int);
          sign_mp_end = (if dot n_end n_mp_end > 0 then 1 else - 1 :: int)
      in map (\<lambda>xyz.
             let sign_xyz_start = (if dot n_start (vsub m_start xyz) > 0 then 1 else - 1);
                 sign_xyz_end = (if dot n_end (vsub xyz m_end) > 0 then 1 else - 1);
                 both = (if sign_xyz_start = sign_mp_start then 1 else 0)
                        + (if sign_xyz_end = sign_mp_end then 1 else (0::int))
             in if both = 2 then 1 else 0)
           (xyz_flat sh))"

text \<open>Lines 539 to 542: \<^verbatim>\<open>sign_mp_com\<close>.\<close>

definition sign_mp_com :: "shape \<Rightarrow> point \<Rightarrow> point \<Rightarrow> int list" where
  "sign_mp_com sh center midpoint =
     map (\<lambda>xyz. if dot (vsub midpoint center) (vsub xyz center) > 0 then 1 else 0)
       (xyz_flat sh)"

text \<open>Elementwise product and sum of two volumes.\<close>

definition vol_mult :: "int list \<Rightarrow> int list \<Rightarrow> int list" where
  "vol_mult a b = map (\<lambda>ab. fst ab * snd ab) (zip a b)"

definition vol_add :: "int list \<Rightarrow> int list \<Rightarrow> int list" where
  "vol_add a b = map (\<lambda>ab. fst ab + snd ab) (zip a b)"

text \<open>Modelled from the spec: \<^verbatim>\<open>skimage.morphology.flood\<close> with \<^verbatim>\<open>connectivity=1\<close>, a
  library function that is not part of this module. The region grows from the seed
  through face neighbours whose value is within the tolerance of the seed's value;
  the result flags the voxels of the region.\<close>

fun neighbours :: "shape \<Rightarrow> nat \<Rightarrow> nat list" where
  "neighbours (nx, ny, nz) v =
     (let x = v div (ny * nz); y = (v div nz) mod ny; z = v mod nz
      in (if 0 < x then [v - ny * nz] else []) @ (if x + 1 < nx then [v + ny * nz] else [])
         @ (if 0 < y then [v - nz] else []) @ (if y + 1 < ny then [v + nz] else [])
         @ (if 0 < z then [v - 1] else []) @ (if z + 1 < nz then [v + 1] else []))"

definition flood_grow :: "shape \<Rightarrow> int list \<Rightarrow> int \<Rightarrow> int \<Rightarrow> bool list \<Rightarrow> bool list" where
  "flood_grow sh img low_tol high_tol flags =
     map (\<lambda>v. flags ! v
               \<or> (low_tol \<le> img ! v \<and> img ! v \<le> high_tol
                   \<and> list_ex (\<lambda>u. flags ! u) (neighbours sh v)))
       [0..<length img]"

definition flood :: "shape \<Rightarrow> int list \<Rightarrow> nat \<Rightarrow> int \<Rightarrow> bool list" where
  "flood sh img seed tolerance =
     (let seed_value = img ! seed;
          flags = map (\<lambda>v. v = seed) [0..<length img]
      in (flood_grow sh img (seed_value - tolerance) (seed_value + tolerance)
            ^^ length img) flags)"

text \<open>\<^verbatim>\<open>dot = tuple(np.floor(midpoint).astype(int))\<close> and the voxel \<^verbatim>\<open>roi[dot]\<close>: every
  component is a Python index on its axis, \<open>None\<close> standing for \<^verbatim>\<open>IndexError\<close>.\<close>

definition axis_index :: "nat \<Rightarrow> int \<Rightarrow> nat option" where
  "axis_index n k =
     (if 0 \<le> k \<and> k < int n then Some (nat k)
      else if - int n \<le> k \<and> k < 0 then Some (nat (int n + k))
      else None)"

fun seed_voxel :: "shape \<Rightarrow> point \<Rightarrow> nat option" where
  "seed_voxel (nx, ny, nz) (a, b, c) =
     (case axis_index nx \<lfloor>a\<rfloor> of
        None \<Rightarrow> None
      | Some x \<Rightarrow>
          (case axis_index ny \<lfloor>b\<rfloor> of
             None \<Rightarrow> None
           | Some y \<Rightarrow>
               (case axis_index nz \<lfloor>c\<rfloor> of
                  None \<Rightarrow> None
                | Some z \<Rightarrow> Some ((x * ny + y) * nz + z))))"

text \<open>The body of the loop for section \<open>i\<close> (lines 506 to 556).\<close>

definition section_step ::
  "shape \<Rightarrow> int list \<Rightarrow> point \<Rightarrow> point list \<Rightarrow> bool \<Rightarrow> nat \<Rightarrow> nat list
     \<Rightarrow> py_error + nat list" where
  "section_step sh trk_roi center point_array simplify_shape i labels =
     (let midpoint = vdiv (vadd (point_array ! (i - 1)) (point_array ! i)) 2;
          roi_mp_slice = vol_mult (sign_mp_slice sh point_array i) trk_roi;
          roi_mp_com = vol_mult (sign_mp_com sh center midpoint) trk_roi;
          roi = vol_add roi_mp_slice roi_mp_com;
          label = (\<lambda>roi. map (\<lambda>rm. if fst rm = 2 then i else snd rm) (zip roi labels))
      in if simplify_shape then
           (case seed_voxel sh midpoint of
              None \<Rightarrow> Inl IndexError
            | Some seed \<Rightarrow>
                if roi ! seed = 2 then
                  (let roi_connec = flood sh (vol_mult roi roi_mp_slice) seed 1
                   in Inr (label (map (\<lambda>b. if b then 2 else 0) roi_connec)))
                else Inr (label roi))
         else Inr (label roi))"

text \<open>The loop skips \<open>i = 0\<close>; the mask starts as zeros of the shape of \<^verbatim>\<open>trk_roi\<close>.\<close>

definition get_roi_sections_from_nodes ::
  "shape \<Rightarrow> int list \<Rightarrow> point \<Rightarrow> point list \<Rightarrow> bool \<Rightarrow> py_error + nat list" where
  "get_roi_sections_from_nodes sh trk_roi center point_array simplify_shape =
     for_each (section_step sh trk_roi center point_array simplify_shape)
       [1..<length point_array] (replicate (length trk_roi) 0)"

text \<open>The state of the skeleton loop has its \<open>2 ^ level + 1\<close> nodes, and \<open>a\<close> and \<open>b\<close> at both ends.\<close>

definition ends_kept :: "nat \<Rightarrow> point \<Rightarrow> point \<Rightarrow> point list \<times> point list \<Rightarrow> bool" where
  "ends_kept level a b s \<longleftrightarrow>
     length (fst s) = 2 ^ level + 1 \<and> fst s ! 0 = a \<and> fst s ! (2 ^ level) = b"

text \<open>The state of the estimator loop has the distance map \<open>d0\<close> and the two end nodes of
  \<open>point_array\<close>.\<close>

definition frame_kept :: "real list list \<Rightarrow> point list \<Rightarrow> real list list \<times> point list \<Rightarrow> bool" where
  "frame_kept d0 point_array s \<longleftrightarrow>
     fst s = d0 \<and> length (snd s) = length point_array
     \<and> snd s ! 0 = point_array ! 0
     \<and> snd s ! (length point_array - 1) = point_array ! (length point_array - 1)"

text \<open>Every flagged voxel is the seed or has its value between the two bounds.\<close>

definition flood_within :: "int list \<Rightarrow> nat \<Rightarrow> int \<Rightarrow> int \<Rightarrow> bool list \<Rightarrow> bool" where
  "flood_within img seed low_tol high_tol flags \<longleftrightarrow>
     length flags = length img
     \<and> list_all (\<lambda>v. v = seed \<or> (low_tol \<le> img ! v \<and> img ! v \<le> high_tol))
         (filter (\<lambda>v. flags ! v) [0..<length img])"

text \<open>A labelled volume of the shape of \<^verbatim>\<open>trk_roi\<close>: every voxel is 0 or the number of a
  section, from 1 to \<open>node_count - 1\<close>, and then the voxel is in the occupancy mask.\<close>

definition labels_ok :: "shape \<Rightarrow> int list \<Rightarrow> nat \<Rightarrow> nat list \<Rightarrow> bool" where
  "labels_ok sh trk_roi node_count labels \<longleftrightarrow>
     length labels = n_voxels sh
     \<and> list_all (\<lambda>v. labels ! v = 0
                     \<or> (1 \<le> labels ! v \<and> labels ! v \<le> node_count - 1 \<and> trk_roi ! v = 1))
         [0..<n_voxels sh]"

section \<open>Example inputs\<close>

text \<open>Two streamlines of five points each, one stored upwards and one downwards.\<close>

definition two_curves :: "point list" where
  "two_curves =
     [(0, 0, 0), (0, 0, 1), (0, 0, 2), (0, 0, 3), (0, 0, 4),
      (1, 0, 4), (1, 0, 3), (1, 0, 2), (1, 0, 1), (1, 0, 0)]"

definition skel3 :: "point list" where
  "skel3 = [(1 / 2, 0, 0), (1 / 2, 0, 3 / 2), (1 / 2, 0, 4)]"

text \<open>Two streamlines of four points each, both stored upwards: the last point of
  each and the first point of the next are on different sides of the plane
  \<open>z = 3 / 2\<close>.\<close>

definition parallel_curves :: "point list" where
  "parallel_curves =
     [(0, 0, 0), (0, 0, 1), (0, 0, 2), (0, 0, 3),
      (1, 0, 0), (1, 0, 1), (1, 0, 2), (1, 0, 3)]"


text \<open>A skeleton of three nodes on the axis of \<open>two_curves\<close>, and one whose middle node is
  the median of the crossings of \<open>two_curves\<close>.\<close>

definition skel3_raw :: "point list" where
  "skel3_raw = [(1 / 2, 0, 0), (1 / 2, 0, 2), (1 / 2, 0, 4)]"

text \<open>One streamline whose last step jumps over the planes \<open>z = 1 / 2\<close> and \<open>z = 1\<close>.\<close>

definition long_step :: "point list" where
  "long_step = [(0, 0, 0), (0, 0, 1 / 4), (0, 0, 5)]"

definition unit_skeleton :: "point list" where
  "unit_skeleton = [(0, 0, 0), (0, 0, 1 / 2), (0, 0, 1)]"

text \<open>Three streamlines: one long one from the origin, two short ones towards it.\<close>

definition three_starts :: "point list" where
  "three_starts = [(0, 0, 0), (1, 1, 1), (1, 1, 1)]"

definition three_ends :: "point list" where
  "three_ends = [(10, 10, 10), (0, 0, 0), (0, 0, 0)]"

text \<open>A column of three voxels, two of them in the occupancy mask, and a skeleton of two
  nodes on its axis.\<close>

definition column_mask :: "int list" where
  "column_mask = [1, 1, 0]"

definition column_skeleton :: "point list" where
  "column_skeleton = [(1 / 2, 1 / 2, 0), (1 / 2, 1 / 2, 2)]"



section \<open>Loops and invariants\<close>

lemma fold_invariant:
  "(\<And>x s. x \<in> set xs \<Longrightarrow> P s \<Longrightarrow> P (f x s)) \<Longrightarrow> P s \<Longrightarrow> P (fold f xs s)"
  by (induction xs arbitrary: s) auto

lemma for_each_invariant:
  "for_each body xs s = Inr s' \<Longrightarrow> P s \<Longrightarrow>
   (\<And>i s s'. i \<in> set xs \<Longrightarrow> P s \<Longrightarrow> body i s = Inr s' \<Longrightarrow> P s') \<Longrightarrow> P s'"
proof (induction xs arbitrary: s)
  case Nil
  then show ?case by simp
next
  case (Cons x xs)
  from Cons.prems(1) obtain s1 where b: "body x s = Inr s1" and r: "for_each body xs s1 = Inr s'"
    by (auto split: sum.splits)
  have "P s1" using Cons.prems(3) [of x s s1] Cons.prems(2) b by simp
  then show ?case by (rule Cons.IH [OF r]) (use Cons.prems(3) in auto)
qed

section \<open>Crossing detection leaves out the streamline boundaries\<close>

lemma drop_members_excluded: "k \<in> set excluded \<Longrightarrow> k \<notin> set (drop_members excluded idx)"
  by (simp add: drop_members_def)

lemma drop_members_subset: "set (drop_members excluded idx) \<subseteq> set idx"
  by (auto simp: drop_members_def)

lemma plane_crossings_no_offset:
  "k \<in> set offsets \<Longrightarrow> k \<notin> set (plane_crossings streams_data offsets midpoint normal)"
  by (simp add: plane_crossings_def drop_members_excluded)

text \<open>Index \<open>k\<close> of \<open>sign_changes\<close> stands for the pair of points \<open>k - 1\<close> and \<open>k\<close>, and
  index 0 for the pair made of the last point and the first one.\<close>

lemma sign_changes_iff:
  "k \<in> set (sign_changes sign) \<longleftrightarrow>
     k < length sign \<and> abs (sign ! ((k + length sign - 1) mod length sign) - sign ! k) = 1"
proof (cases "sign = []")
  case True
  then show ?thesis by (simp add: sign_changes_def)
next
  case False
  have r: "roll1 sign ! k = sign ! ((k + length sign - 1) mod length sign)" if "k < length sign"
  proof (cases k)
    case 0
    then show ?thesis using False by (simp add: roll1_def last_conv_nth)
  next
    case (Suc m)
    then show ?thesis using False that by (simp add: roll1_def nth_butlast)
  qed
  show ?thesis using r by (auto simp: sign_changes_def)
qed

text \<open>
  Claim C3. The pair made of the last point of a streamline and the first point of the
  next one (and the pair made of the last point of the data and point 0) is reported
  under the index of its second point, which is in \<^verbatim>\<open>streams._offsets\<close>. None of
  the three detectors (skeleton building, median and distance estimation, outlier
  filtering) returns an index of \<^verbatim>\<open>streams._offsets\<close>, for any plane and any data.
\<close>

theorem crossing_never_at_streamline_boundary:
  assumes "k \<in> set offsets"
  shows "k \<notin> set (window_idx streams_data offsets m_start normal_previous m_end normal_next)
   \<and> k \<notin> set (median_idx streams_data offsets center point_array i)
   \<and> k \<notin> set (outlier_idx streams_data offsets point_array i)"
proof (intro conjI)
  have "set (window_idx streams_data offsets m_start normal_previous m_end normal_next)
          \<subseteq> set (plane_crossings streams_data offsets (vdiv (vadd m_start m_end) 2)
                    (vsub m_start m_end))"
    unfolding window_idx_def Let_def by (rule drop_members_subset)
  then show "k \<notin> set (window_idx streams_data offsets m_start normal_previous m_end normal_next)"
    using plane_crossings_no_offset [OF assms] by blast
next
  have "set (median_idx streams_data offsets center point_array i)
          \<subseteq> set (plane_crossings streams_data offsets (point_array ! i)
                    (vsub (point_array ! (i - 1)) (point_array ! (i + 1))))"
    unfolding median_idx_def Let_def by (rule drop_members_subset)
  then show "k \<notin> set (median_idx streams_data offsets center point_array i)"
    using plane_crossings_no_offset [OF assms] by blast
next
  show "k \<notin> set (outlier_idx streams_data offsets point_array i)"
    unfolding outlier_idx_def Let_def by (rule plane_crossings_no_offset [OF assms])
qed

lemma parallel_curves_sign_changes:
  "sign_changes (plane_sign parallel_curves (0, 0, 3 / 2) (0, 0, - 3)) = [0, 2, 4, 6]"
  unfolding parallel_curves_def by code_simp

theorem crossing_never_at_streamline_boundary_witness:
  "4 \<in> set [0, 4::nat]
   \<and> 4 \<in> set (sign_changes (plane_sign parallel_curves (0, 0, 3 / 2) (0, 0, - 3)))
   \<and> 4 \<notin> set (window_idx parallel_curves [0, 4] (0, 0, 0) (0, 0, - 3) (0, 0, 3) (0, 0, - 3))
   \<and> 4 \<notin> set (median_idx parallel_curves [0, 4] (1 / 2, 0, 3 / 2)
                  [(0, 0, 0), (0, 0, 3 / 2), (0, 0, 3)] 1)
   \<and> 4 \<notin> set (outlier_idx parallel_curves [0, 4] [(0, 0, 0), (0, 0, 3 / 2), (0, 0, 3)] 1)"
proof -
  have h: "4 \<in> set [0, 4::nat]" by simp
  show ?thesis
    using crossing_never_at_streamline_boundary [OF h, of parallel_curves "(0, 0, 0)"
        "(0, 0, - 3)" "(0, 0, 3)" "(0, 0, - 3)" "(1 / 2, 0, 3 / 2)"
        "[(0, 0, 0), (0, 0, 3 / 2), (0, 0, 3)]" 1]
    by (simp add: parallel_curves_sign_changes)
qed

section \<open>The skeleton has \<open>2 ^ level + 1\<close> nodes between the resolved ends\<close>

lemma window_index_less:
  assumes "j < level" and "i < 2 ^ j"
  shows "(2::nat) ^ (level - j - 1) * (2 * i + 1) < 2 ^ level"
proof -
  have h: "2 * i + 1 < (2::nat) ^ Suc j" using assms(2) by simp
  have pos: "0 < (2::nat) ^ (level - j - 1)" by simp
  have "(2::nat) ^ (level - j - 1) * (2 * i + 1) < 2 ^ (level - j - 1) * 2 ^ Suc j"
    by (rule mult_less_mono2 [OF h pos])
  also have "\<dots> = 2 ^ (level - j - 1 + Suc j)" by (simp only: power_add)
  also have "level - j - 1 + Suc j = level" using assms(1) by simp
  finally show ?thesis .
qed

lemma window_step_length:
  "length (fst (window_step streams_data offsets level j i s)) = length (fst s)"
  by (simp add: window_step_def Let_def)

lemma window_step_other:
  "k \<noteq> 2 ^ (level - j - 1) * (2 * i + 1) \<Longrightarrow>
     fst (window_step streams_data offsets level j i s) ! k = fst s ! k"
  by (simp add: window_step_def Let_def)

lemma window_step_ends_kept:
  assumes "j < level" and "i < 2 ^ j" and "ends_kept level a b s"
  shows "ends_kept level a b (window_step streams_data offsets level j i s)"
proof -
  have "0 \<noteq> (2::nat) ^ (level - j - 1) * (2 * i + 1)" by simp
  moreover have "(2::nat) ^ level \<noteq> 2 ^ (level - j - 1) * (2 * i + 1)"
    using window_index_less [OF assms(1,2)] by simp
  ultimately show ?thesis
    using assms(3) unfolding ends_kept_def
    by (simp only: window_step_length window_step_other simp_thms)
qed

lemma level_pass_ends_kept:
  "j < level \<Longrightarrow> ends_kept level a b s \<Longrightarrow>
     ends_kept level a b (level_pass streams_data offsets level j s)"
  unfolding level_pass_def
  by (rule fold_invariant) (auto intro: window_step_ends_kept)

lemma init_arrays_ends_kept: "ends_kept level m_start m_end (init_arrays level m_start m_end)"
  by (simp add: init_arrays_def ends_kept_def Let_def nth_list_update del: replicate.simps)

lemma build_skeleton_ends:
  "length (build_skeleton streams_data offsets level m_start m_end) = 2 ^ level + 1
   \<and> build_skeleton streams_data offsets level m_start m_end ! 0 = m_start
   \<and> build_skeleton streams_data offsets level m_start m_end ! (2 ^ level) = m_end"
proof -
  have "ends_kept level m_start m_end
          (fold (level_pass streams_data offsets level) [0..<level]
             (init_arrays level m_start m_end))"
    by (rule fold_invariant) (auto intro: level_pass_ends_kept init_arrays_ends_kept)
  then show ?thesis by (simp add: build_skeleton_def ends_kept_def)
qed

section \<open>The estimator writes interior nodes only\<close>

text \<open>The lookup of the owner of \<^verbatim>\<open>idx[j]\<close> raises, so the loop over the distances
  returns only when there is no distance to record.\<close>

lemma record_dists_Inr:
  "record_dists offsets n_points i kds dist_map = Inr d \<Longrightarrow> kds = [] \<and> d = dist_map"
  by (cases kds) auto

lemma median_step_Inr:
  assumes "median_step streams_data offsets center point_array compute_dist i s = Inr s'"
  shows "fst s' = fst s \<and> length (snd s') = length (snd s)
         \<and> (\<forall>k. k \<noteq> i \<longrightarrow> snd s' ! k = snd s ! k) \<and> \<not> compute_dist"
proof -
  let ?idx = "median_idx streams_data offsets center point_array i"
  from assms have ne: "?idx \<noteq> []"
    by (auto simp: median_step_def Let_def split: if_splits)
  show ?thesis
  proof (cases compute_dist)
    case False
    with assms ne show ?thesis by (auto simp: median_step_def Let_def)
  next
    case True
    from ne have "zip ?idx (idx_dist (map (\<lambda>k. streams_data ! k) ?idx)
        (median_points (map (\<lambda>k. streams_data ! k) ?idx))) \<noteq> []"
      by (cases ?idx) (auto simp: idx_dist_def)
    with assms ne True show ?thesis
      by (auto simp: median_step_def Let_def split: sum.splits dest: record_dists_Inr)
  qed
qed

lemma get_dist_frame:
  assumes "get_dist_from_median_trajectory streams_data offsets center point_array compute_dist
             = Inr r"
  shows "frame_kept (replicate (length point_array) (replicate (length offsets) 0)) point_array r"
proof -
  let ?d0 = "replicate (length point_array) (replicate (length offsets) (0::real))"
  have run: "for_each (median_step streams_data offsets center point_array compute_dist)
               [1..<length point_array - 1] (?d0, point_array) = Inr r"
    using assms by (simp add: get_dist_from_median_trajectory_def Let_def)
  show ?thesis
  proof (rule for_each_invariant [OF run, where P = "frame_kept ?d0 point_array"])
    show "frame_kept ?d0 point_array (?d0, point_array)" by (simp add: frame_kept_def)
  next
    fix i s s'
    assume i: "i \<in> set [1..<length point_array - 1]" and p: "frame_kept ?d0 point_array s"
      and b: "median_step streams_data offsets center point_array compute_dist i s = Inr s'"
    from i have "i \<noteq> 0" "i \<noteq> length point_array - 1" by auto
    with median_step_Inr [OF b] p show "frame_kept ?d0 point_array s'"
      by (simp add: frame_kept_def)
  qed
qed

text \<open>
  Claim C1. Without smoothing \<^verbatim>\<open>extract_nodes\<close> always returns, and whatever it returns,
  with or without smoothing, has exactly \<open>2 ^ level + 1\<close> nodes, the first one being the
  resolved \<^verbatim>\<open>m_start\<close> and the last one the resolved \<^verbatim>\<open>m_end\<close>: the smoothing pass
  leaves both unchanged.
\<close>

theorem extract_nodes_count_and_ends:
  "(\<exists>point_array.
      extract_nodes streams_data offsets center start_pts end_pts selec_streamlines level False
        = Inr point_array)
   \<and> (\<forall>smooth point_array.
        extract_nodes streams_data offsets center start_pts end_pts selec_streamlines level smooth
          = Inr point_array \<longrightarrow>
        length point_array = 2 ^ level + 1
        \<and> point_array ! 0 = fst (resolve_ends start_pts end_pts selec_streamlines)
        \<and> point_array ! (2 ^ level) = snd (resolve_ends start_pts end_pts selec_streamlines))"
proof (intro conjI allI impI)
  show "\<exists>point_array.
      extract_nodes streams_data offsets center start_pts end_pts selec_streamlines level False
        = Inr point_array"
    by (simp add: extract_nodes_def Let_def)
next
  fix smooth point_array
  assume r: "extract_nodes streams_data offsets center start_pts end_pts selec_streamlines
               level smooth = Inr point_array"
  let ?ends = "resolve_ends start_pts end_pts selec_streamlines"
  let ?sk = "build_skeleton streams_data offsets level (fst ?ends) (snd ?ends)"
  note sk = build_skeleton_ends [of streams_data offsets level "fst ?ends" "snd ?ends"]
  have "length point_array = length ?sk \<and> point_array ! 0 = ?sk ! 0
        \<and> point_array ! (2 ^ level) = ?sk ! (2 ^ level)"
  proof (cases smooth)
    case False
    with r show ?thesis by (simp add: extract_nodes_def Let_def)
  next
    case True
    with r obtain d where
      g: "get_dist_from_median_trajectory streams_data offsets center ?sk False
            = Inr (d, point_array)"
      by (auto simp: extract_nodes_def Let_def split: sum.splits)
    from get_dist_frame [OF g] sk show ?thesis by (simp add: frame_kept_def)
  qed
  with sk show "length point_array = 2 ^ level + 1" by simp
  from \<open>length point_array = length ?sk \<and> _\<close> sk
  show "point_array ! 0 = fst ?ends" by simp
  from \<open>length point_array = length ?sk \<and> _\<close> sk
  show "point_array ! (2 ^ level) = snd ?ends" by simp
qed

lemma two_curves_resolve_ends:
  "resolve_ends [(0, 0, 0), (1, 0, 0)] [(0, 0, 4), (1, 0, 4)] [True, True]
     = ((1 / 2, 0, 0), (1 / 2, 0, 4))"
  by code_simp

lemma two_curves_build_skeleton:
  "build_skeleton two_curves [0, 5] 1 (1 / 2, 0, 0) (1 / 2, 0, 4) = skel3"
  unfolding two_curves_def skel3_def by code_simp

lemma two_curves_median_idx:
  "median_idx two_curves [0, 5] (1 / 2, 0, 2) skel3 (Suc 0) = [2, 8]"
  unfolding two_curves_def skel3_def by code_simp

lemma two_curves_median_points:
  "median_points [two_curves ! 2, two_curves ! 8] = (1 / 2, 0, 3 / 2)"
  unfolding two_curves_def by code_simp

lemma two_curves_median_step:
  "median_step two_curves [0, 5] (1 / 2, 0, 2) skel3 False (Suc 0) (d, skel3) = Inr (d, skel3)"
  by (simp add: median_step_def two_curves_median_idx two_curves_median_points Let_def)
     (simp add: skel3_def)

lemma two_curves_smoothing:
  "get_dist_from_median_trajectory two_curves [0, 5] (1 / 2, 0, 2) skel3 False
     = Inr ([[0, 0], [0, 0], [0, 0]], skel3)"
proof -
  have "length skel3 = 3" by (simp add: skel3_def)
  then show ?thesis
    by (simp add: get_dist_from_median_trajectory_def two_curves_median_step Let_def
        numeral_3_eq_3)
qed

lemma two_curves_extract_nodes:
  "extract_nodes two_curves [0, 5] (1 / 2, 0, 2) [(0, 0, 0), (1, 0, 0)] [(0, 0, 4), (1, 0, 4)]
     [True, True] 1 True = Inr skel3"
  by (simp add: extract_nodes_def two_curves_resolve_ends two_curves_build_skeleton
      two_curves_smoothing Let_def del: One_nat_def)

theorem extract_nodes_count_and_ends_witness:
  "extract_nodes two_curves [0, 5] (1 / 2, 0, 2) [(0, 0, 0), (1, 0, 0)] [(0, 0, 4), (1, 0, 4)]
     [True, True] 1 True = Inr skel3
   \<and> length skel3 = 2 ^ 1 + 1
   \<and> skel3 ! 0 = fst (resolve_ends [(0, 0, 0), (1, 0, 0)] [(0, 0, 4), (1, 0, 4)] [True, True])
   \<and> skel3 ! (2 ^ 1) = snd (resolve_ends [(0, 0, 0), (1, 0, 0)] [(0, 0, 4), (1, 0, 4)] [True, True])"
  using extract_nodes_count_and_ends [of two_curves "[0, 5]" "(1 / 2, 0, 2)"
      "[(0, 0, 0), (1, 0, 0)]" "[(0, 0, 4), (1, 0, 4)]" "[True, True]" 1]
    two_curves_extract_nodes
  by blast

section \<open>A window without crossing takes the midpoint\<close>

text \<open>
  For window \<open>i\<close> of level \<open>j\<close>, with \<^verbatim>\<open>m_start\<close> and \<^verbatim>\<open>m_end\<close> the nodes that bracket
  it: when no point index passes the crossing test and the two filters, the node
  written for the window is \<open>(m_start + m_end) / 2\<close>, and the loop of the skeleton
  builder goes on with the next window.
\<close>

theorem degenerate_window_takes_midpoint:
  assumes "j < level" and "i < 2 ^ j"
    and "length (fst s) = 2 ^ level + 1"
    and "stride = 2 ^ (level - j - 1)"
    and "m_start = fst s ! (stride * 2 * i)"
    and "m_end = fst s ! (stride * (2 * i + 2))"
    and "window_idx streams_data offsets m_start (snd s ! (stride * (2 * i)))
           m_end (snd s ! (stride * (2 * i + 2))) = []"
  shows "fst (window_step streams_data offsets level j i s) ! (stride * (2 * i + 1))
           = vdiv (vadd m_start m_end) 2"
proof -
  have lt: "stride * (2 * i + 1) < length (fst s)"
    using window_index_less [OF assms(1,2)] assms(3,4) by simp
  have pos: "0 < stride" using assms(4) by simp
  have n1: "stride * (2 * i + 1) \<noteq> stride * (2 * i)" using pos by simp
  have n2: "stride * (2 * i + 1) \<noteq> stride * (2 * i + 2)" using pos by simp
  have "window_step streams_data offsets level j i s =
          ((fst s)[stride * (2 * i + 1) := node_position streams_data
              (window_idx streams_data offsets m_start
                 ((snd s)[stride * (2 * i + 1) := vsub m_start m_end] ! (stride * (2 * i)))
                 m_end
                 ((snd s)[stride * (2 * i + 1) := vsub m_start m_end] ! (stride * (2 * i + 2))))
              (vdiv (vadd m_start m_end) 2)],
           (snd s)[stride * (2 * i + 1) := vsub m_start m_end])"
    unfolding window_step_def Let_def assms(4,5,6) by (simp only: mult.assoc)
  then show ?thesis
    using lt n1 n2 assms(7) by (simp add: node_position_def)
qed

lemma far_window_init:
  "init_arrays 1 (0, 0, 10) (0, 0, 20)
     = ([(0, 0, 10), (0, 0, 0), (0, 0, 20)], [(0, 0, - 10), (0, 0, 0), (0, 0, - 10)])"
  by code_simp

lemma far_window_idx:
  "window_idx two_curves [0, 5] (0, 0, 10) (0, 0, - 10) (0, 0, 20) (0, 0, - 10) = []"
  unfolding two_curves_def by code_simp

theorem degenerate_window_takes_midpoint_witness:
  "(0::nat) < 1 \<and> (0::nat) < 2 ^ 0
   \<and> window_idx two_curves [0, 5] (0, 0, 10) (0, 0, - 10) (0, 0, 20) (0, 0, - 10) = []
   \<and> fst (window_step two_curves [0, 5] 1 0 0 (init_arrays 1 (0, 0, 10) (0, 0, 20))) ! 1
       = (0, 0, 15)"
proof -
  let ?s = "([(0, 0, 10), (0, 0, 0), (0, 0, 20)], [(0, 0, - 10), (0, 0, 0), (0, 0, - 10)])
              :: point list \<times> point list"
  have h1: "(0::nat) < 1" and h2: "(0::nat) < 2 ^ 0" by simp_all
  have h3: "length (fst ?s) = 2 ^ 1 + 1" by simp
  have h4: "(1::nat) = 2 ^ (1 - 0 - 1)" by simp
  have h5: "(0, 0, 10) = fst ?s ! (1 * 2 * 0)" by simp
  have h6: "(0, 0, 20) = fst ?s ! (1 * (2 * 0 + 2))" by simp
  have h7: "window_idx two_curves [0, 5] (0, 0, 10) (snd ?s ! (1 * (2 * 0)))
              (0, 0, 20) (snd ?s ! (1 * (2 * 0 + 2))) = []"
    using far_window_idx by simp
  from degenerate_window_takes_midpoint [OF h1 h2 h3 h4 h5 h6 h7]
  have "fst (window_step two_curves [0, 5] 1 0 0 ?s) ! 1 = (0, 0, 15)" by simp
  then show ?thesis using far_window_idx by (simp only: far_window_init h1 h2 simp_thms)
qed







section \<open>The estimator leaves the end nodes\<close>

text \<open>The distances of lines 266 to 268 are norms.\<close>

lemma idx_dist_nonneg: "d \<in> set (idx_dist idx_pos med) \<Longrightarrow> 0 \<le> d"
  by (cases med) (auto simp: idx_dist_def norm3_def)

lemma get_dist_no_interior:
  "length point_array \<le> 2 \<Longrightarrow>
     get_dist_from_median_trajectory streams_data offsets center point_array compute_dist
       = Inr (replicate (length point_array) (replicate (length offsets) 0), point_array)"
  by (simp add: get_dist_from_median_trajectory_def Let_def)

text \<open>With \<^verbatim>\<open>compute_dist\<close> true and an interior node, the body of the loop raises:
  \<^verbatim>\<open>IndexError\<close> when no crossing is left, and otherwise \<^verbatim>\<open>AxisError\<close> at the first
  lookup of the owner of \<^verbatim>\<open>idx[j]\<close>.\<close>

lemma compute_dist_raises_with_interior_node:
  assumes "3 \<le> length point_array"
  shows "\<exists>e. get_dist_from_median_trajectory streams_data offsets center point_array True = Inl e"
proof -
  let ?body = "median_step streams_data offsets center point_array True"
  let ?s = "(replicate (length point_array) (replicate (length offsets) (0::real)), point_array)"
  have u: "[1..<length point_array - 1] = 1 # [2..<length point_array - 1]"
    using assms by (simp add: upt_conv_Cons numeral_2_eq_2)
  have "\<exists>e. ?body 1 ?s = Inl e"
  proof (cases "?body 1 ?s")
    case (Inl e)
    then show ?thesis by blast
  next
    case (Inr s')
    from median_step_Inr [OF Inr] show ?thesis by simp
  qed
  then obtain e where "?body 1 ?s = Inl e" ..
  then have "for_each ?body (1 # [2..<length point_array - 1]) ?s = Inl e" by simp
  then show ?thesis
    unfolding get_dist_from_median_trajectory_def Let_def u by blast
qed

text \<open>
  Claim C10. Whatever \<^verbatim>\<open>get_dist_from_median_trajectory\<close> returns, the median array has
  the nodes of \<^verbatim>\<open>point_array\<close> at index 0 and at the last index, and rows 0 and last
  of the distance map are zero; so a smoothed skeleton returned by \<^verbatim>\<open>extract_nodes\<close>
  still has the resolved ends at both ends.
\<close>

theorem estimator_writes_interior_only:
  "(\<forall>dist_map median_array.
      get_dist_from_median_trajectory streams_data offsets center point_array compute_dist
        = Inr (dist_map, median_array) \<longrightarrow> point_array \<noteq> [] \<longrightarrow>
      length median_array = length point_array
      \<and> median_array ! 0 = point_array ! 0
      \<and> last median_array = last point_array
      \<and> length dist_map = length point_array
      \<and> dist_map ! 0 = replicate (length offsets) 0
      \<and> last dist_map = replicate (length offsets) 0)
   \<and> (\<forall>nodes.
        extract_nodes streams_data offsets center start_pts end_pts selec_streamlines level True
          = Inr nodes \<longrightarrow>
        nodes ! 0 = fst (resolve_ends start_pts end_pts selec_streamlines)
        \<and> last nodes = snd (resolve_ends start_pts end_pts selec_streamlines))"
proof (intro conjI allI impI)
  fix dist_map median_array
  assume g: "get_dist_from_median_trajectory streams_data offsets center point_array compute_dist
        = Inr (dist_map, median_array)" and ne: "point_array \<noteq> []"
  note f = get_dist_frame [OF g, unfolded frame_kept_def, simplified]
  from ne have pos: "0 < length point_array" by simp
  show "length median_array = length point_array" using f by simp
  show "median_array ! 0 = point_array ! 0" using f by simp
  have "median_array \<noteq> []" using f ne by auto
  then have "last median_array = median_array ! (length median_array - 1)"
    by (rule last_conv_nth)
  then show "last median_array = last point_array"
    using f last_conv_nth [OF ne] by simp
  show "length dist_map = length point_array" using f by simp
  show "dist_map ! 0 = replicate (length offsets) 0" using f pos by simp
  show "last dist_map = replicate (length offsets) 0" using f pos by simp
next
  fix nodes
  assume r: "extract_nodes streams_data offsets center start_pts end_pts selec_streamlines
               level True = Inr nodes"
  let ?ends = "resolve_ends start_pts end_pts selec_streamlines"
  let ?sk = "build_skeleton streams_data offsets level (fst ?ends) (snd ?ends)"
  note sk = build_skeleton_ends [of streams_data offsets level "fst ?ends" "snd ?ends"]
  from r obtain d where
    g: "get_dist_from_median_trajectory streams_data offsets center ?sk False = Inr (d, nodes)"
    by (auto simp: extract_nodes_def Let_def split: sum.splits)
  note f = get_dist_frame [OF g, unfolded frame_kept_def, simplified]
  show "nodes ! 0 = fst ?ends" using f sk by simp
  have "nodes \<noteq> []" using f sk by auto
  then have "last nodes = nodes ! (length nodes - 1)" by (rule last_conv_nth)
  then show "last nodes = snd ?ends" using f sk by simp
qed

lemma two_curves_raw_median_idx:
  "median_idx two_curves [0, 5] (1 / 2, 0, 2) skel3_raw (Suc 0) = [2, 8]"
  unfolding two_curves_def skel3_raw_def by code_simp

lemma two_curves_raw_median_step:
  "median_step two_curves [0, 5] (1 / 2, 0, 2) skel3_raw False (Suc 0) (d, skel3_raw)
     = Inr (d, skel3)"
  by (simp add: median_step_def two_curves_raw_median_idx two_curves_median_points Let_def)
     (simp add: skel3_def skel3_raw_def)

lemma two_curves_raw_smoothing:
  "get_dist_from_median_trajectory two_curves [0, 5] (1 / 2, 0, 2) skel3_raw False
     = Inr ([[0, 0], [0, 0], [0, 0]], skel3)"
proof -
  have "length skel3_raw = 3" by (simp add: skel3_raw_def)
  then show ?thesis
    by (simp add: get_dist_from_median_trajectory_def two_curves_raw_median_step Let_def
        numeral_3_eq_3)
qed

theorem estimator_writes_interior_only_witness:
  "get_dist_from_median_trajectory two_curves [0, 5] (1 / 2, 0, 2) skel3_raw False
     = Inr ([[0, 0], [0, 0], [0, 0]], skel3)
   \<and> skel3_raw \<noteq> [] \<and> skel3 ! 1 \<noteq> skel3_raw ! 1
   \<and> skel3 ! 0 = skel3_raw ! 0 \<and> last skel3 = last skel3_raw
   \<and> [[0, 0], [0, 0], [0, 0::real]] ! 0 = replicate (length [0, 5::nat]) 0
   \<and> last [[0, 0], [0, 0], [0, 0::real]] = replicate (length [0, 5::nat]) 0
   \<and> extract_nodes two_curves [0, 5] (1 / 2, 0, 2) [(0, 0, 0), (1, 0, 0)]
         [(0, 0, 4), (1, 0, 4)] [True, True] 1 True = Inr skel3
   \<and> skel3 ! 0 = fst (resolve_ends [(0, 0, 0), (1, 0, 0)] [(0, 0, 4), (1, 0, 4)] [True, True])
   \<and> last skel3 = snd (resolve_ends [(0, 0, 0), (1, 0, 0)] [(0, 0, 4), (1, 0, 4)] [True, True])"
proof -
  have ne: "skel3_raw \<noteq> []" and moved: "skel3 ! 1 \<noteq> skel3_raw ! 1"
    by (simp_all add: skel3_raw_def skel3_def)
  note t = estimator_writes_interior_only [of two_curves "[0, 5]" "(1 / 2, 0, 2)" skel3_raw
      False "[(0, 0, 0), (1, 0, 0)]" "[(0, 0, 4), (1, 0, 4)]" "[True, True]" 1]
  from t two_curves_raw_smoothing ne
  have a: "skel3 ! 0 = skel3_raw ! 0 \<and> last skel3 = last skel3_raw
        \<and> [[0, 0], [0, 0], [0, 0::real]] ! 0 = replicate (length [0, 5::nat]) 0
        \<and> last [[0, 0], [0, 0], [0, 0::real]] = replicate (length [0, 5::nat]) 0"
    by blast
  from t two_curves_extract_nodes
  have b: "skel3 ! 0 = fst (resolve_ends [(0, 0, 0), (1, 0, 0)] [(0, 0, 4), (1, 0, 4)] [True, True])
   \<and> last skel3 = snd (resolve_ends [(0, 0, 0), (1, 0, 0)] [(0, 0, 4), (1, 0, 4)] [True, True])"
    by blast
  show ?thesis using a b ne moved two_curves_raw_smoothing two_curves_extract_nodes by blast
qed

section \<open>The distance map\<close>

text \<open>With at most two nodes there is no interior node: the map has one row per node,
  all zero.\<close>

lemma two_node_distance_map:
  "get_dist_from_median_trajectory two_curves [0, 5] (1 / 2, 0, 2) [(0, 0, 0), (0, 0, 4)] True
     = Inr ([[0, 0], [0, 0]], [(0, 0, 0), (0, 0, 4)])"
  by (simp add: get_dist_no_interior numeral_2_eq_2)

lemma two_curves_raw_median_step_dist:
  "median_step two_curves [0, 5] (1 / 2, 0, 2) skel3_raw True (Suc 0) s = Inl AxisError"
  by (simp add: median_step_def two_curves_raw_median_idx idx_dist_def Let_def)

text \<open>
  Claim C4. On \<open>two_curves\<close> with a skeleton of three nodes and \<^verbatim>\<open>compute_dist\<close> true, node
  1 has the crossings 2 and 8. The lookup of the owner of \<^verbatim>\<open>idx[0]\<close>, an array of shape
  \<^verbatim>\<open>(1,)\<close>, raises \<^verbatim>\<open>AxisError\<close> (the same lookup on the column \<^verbatim>\<open>idx\<close>, as in
  \<^verbatim>\<open>remove_outlier_streamlines\<close>, gives streamlines 0 and 1), so the function raises and
  no distance map is returned.
\<close>

theorem distance_estimator_raises_at_owner_lookup:
  "median_idx two_curves [0, 5] (1 / 2, 0, 2) skel3_raw 1 = [2, 8]
   \<and> get_streamline_number_from_index [0, 5] (length two_curves) (Array1 [2]) = Inl AxisError
   \<and> get_streamline_number_from_index [0, 5] (length two_curves) (Column [2, 8]) = Inr [0, 1]
   \<and> get_dist_from_median_trajectory two_curves [0, 5] (1 / 2, 0, 2) skel3_raw True
       = Inl AxisError"
proof -
  have "length skel3_raw = 3" by (simp add: skel3_raw_def)
  then have g: "get_dist_from_median_trajectory two_curves [0, 5] (1 / 2, 0, 2) skel3_raw True
       = Inl AxisError"
    by (simp add: get_dist_from_median_trajectory_def two_curves_raw_median_step_dist Let_def
        numeral_3_eq_3)
  have c: "get_streamline_number_from_index [0, 5] (length two_curves) (Column [2, 8])
             = Inr [0, 1]"
    unfolding two_curves_def by code_simp
  show ?thesis using g c two_curves_raw_median_idx by simp
qed

section \<open>The crossings of the density outlier filter\<close>

lemma dot_vdiv: "dot p (vdiv n r) = dot p n / r"
  by (cases p, cases n) (simp add: add_divide_distrib)

lemma norm3_nonneg: "0 \<le> norm3 n"
  by (cases n) (simp add: norm3_def)

lemma norm3_zero: "norm3 n = 0 \<Longrightarrow> dot p n = 0"
proof -
  obtain a b c where n: "n = (a, b, c)" by (cases n) auto
  obtain x y z where p: "p = (x, y, z)" by (cases p) auto
  assume "norm3 n = 0"
  then have "a * a + b * b + c * c = 0" by (simp add: norm3_def n)
  then have "a = 0 \<and> b = 0 \<and> c = 0"
    by (smt (verit) mult_eq_0_iff zero_le_square add_nonneg_eq_0_iff add_nonneg_nonneg)
  then show ?thesis by (simp add: n p)
qed

lemma plane_sign_normalised:
  "plane_sign streams_data midpoint (vdiv normal (norm3 normal))
     = plane_sign streams_data midpoint normal"
proof (cases "norm3 normal = 0")
  case True
  then show ?thesis by (simp add: plane_sign_def dot_vdiv norm3_zero)
next
  case False
  then have "0 < norm3 normal" using norm3_nonneg [of normal] by simp
  then show ?thesis by (simp add: plane_sign_def dot_vdiv zero_less_divide_iff)
qed

lemma plane_sign_values: "k < length streams_data \<Longrightarrow>
  plane_sign streams_data midpoint normal ! k = 0 \<or> plane_sign streams_data midpoint normal ! k = 1"
  by (simp add: plane_sign_def)

lemma length_plane_sign:
  "length (plane_sign streams_data midpoint normal) = length streams_data"
  by (simp add: plane_sign_def)

lemma boundary_filtered_iff:
  assumes "\<And>j. j < length sign \<Longrightarrow> sign ! j = 0 \<or> sign ! j = 1"
  shows "k \<in> set (drop_members offsets (sign_changes sign)) \<longleftrightarrow>
           k < length sign \<and> k \<notin> set offsets
           \<and> sign ! ((k + length sign - 1) mod length sign) \<noteq> sign ! k"
proof (cases "k < length sign")
  case True
  then have "(k + length sign - 1) mod length sign < length sign"
    by (intro mod_less_divisor) auto
  from assms [OF this] assms [OF True]
  have "abs (sign ! ((k + length sign - 1) mod length sign) - sign ! k) = 1
          \<longleftrightarrow> sign ! ((k + length sign - 1) mod length sign) \<noteq> sign ! k"
    by auto
  then show ?thesis using True by (auto simp: drop_members_def sign_changes_iff)
next
  case False
  then show ?thesis by (auto simp: drop_members_def sign_changes_iff)
qed

text \<open>
  Claim C7, amended. In \<^verbatim>\<open>remove_outlier_streamlines\<close> an index is a crossing of node
  \<open>i\<close> exactly when the point and its predecessor in the flattened order are on
  different sides of the plane through \<^verbatim>\<open>point_array[i]\<close> with normal
  \<^verbatim>\<open>point_array[i-1] - point_array[i+1]\<close> and the index is not a streamline offset:
  no other filter applies. The estimator of the median applies the center-of-mass
  filter to the same indices.
\<close>

theorem outlier_crossings_only_boundary_filtered:
  "(k \<in> set (outlier_idx streams_data offsets point_array i) \<longleftrightarrow>
      k < length streams_data \<and> k \<notin> set offsets
      \<and> plane_sign streams_data (point_array ! i)
            (vsub (point_array ! (i - 1)) (point_array ! (i + 1)))
          ! ((k + length streams_data - 1) mod length streams_data)
        \<noteq> plane_sign streams_data (point_array ! i)
            (vsub (point_array ! (i - 1)) (point_array ! (i + 1))) ! k)
   \<and> median_idx streams_data offsets center point_array i
       = drop_members (com_filter streams_data center (point_array ! i))
           (outlier_idx streams_data offsets point_array i)"
proof (rule conjI)
  let ?sign = "plane_sign streams_data (point_array ! i)
            (vsub (point_array ! (i - 1)) (point_array ! (i + 1)))"
  have eq: "outlier_idx streams_data offsets point_array i
          = drop_members offsets (sign_changes ?sign)"
    unfolding outlier_idx_def Let_def plane_crossings_def plane_sign_normalised ..
  have v: "?sign ! j = 0 \<or> ?sign ! j = 1" if "j < length ?sign" for j
    using that unfolding length_plane_sign by (rule plane_sign_values)
  show "k \<in> set (outlier_idx streams_data offsets point_array i) \<longleftrightarrow>
      k < length streams_data \<and> k \<notin> set offsets
      \<and> ?sign ! ((k + length streams_data - 1) mod length streams_data) \<noteq> ?sign ! k"
    using boundary_filtered_iff [of ?sign k offsets, OF v]
    unfolding eq length_plane_sign by blast
  show "median_idx streams_data offsets center point_array i
       = drop_members (com_filter streams_data center (point_array ! i))
           (outlier_idx streams_data offsets point_array i)"
    unfolding median_idx_def outlier_idx_def Let_def plane_crossings_def plane_sign_normalised ..
qed

lemma long_step_norm: "norm3 (vsub (unit_skeleton ! 0) (unit_skeleton ! 2)) = 1"
  by (simp add: unit_skeleton_def norm3_def)

lemma long_step_outlier_idx: "outlier_idx long_step [0] unit_skeleton 1 = [2]"
proof -
  have "plane_crossings long_step [0] (0, 0, 1 / 2) (0, 0, - 1) = [2]"
    unfolding long_step_def by code_simp
  then show ?thesis
    by (simp add: outlier_idx_def Let_def norm3_def unit_skeleton_def)
qed

lemma long_step_idx_filter:
  "idx_filter long_step (unit_skeleton ! 0) (vsub (unit_skeleton ! 0) (unit_skeleton ! 2))
     (unit_skeleton ! 2) (vsub (unit_skeleton ! 0) (unit_skeleton ! 2)) (unit_skeleton ! 1)
   = [2]"
  unfolding long_step_def unit_skeleton_def by code_simp

text \<open>Point 2 of \<open>long_step\<close> is kept as a crossing of node 1 although it is beyond the
  plane at node 2, on the other side than node 1: the consistency filter of the
  skeleton builder lists it for removal.\<close>

theorem outlier_crossings_consistency_counterexample:
  "2 \<in> set (outlier_idx long_step [0] unit_skeleton 1)
   \<and> 2 \<in> set (idx_filter long_step (unit_skeleton ! 0)
                 (vsub (unit_skeleton ! 0) (unit_skeleton ! 2))
                 (unit_skeleton ! 2) (vsub (unit_skeleton ! 0) (unit_skeleton ! 2))
                 (unit_skeleton ! 1))"
  using long_step_outlier_idx long_step_idx_filter by simp

theorem outlier_crossings_only_boundary_filtered_witness:
  "2 \<in> set (outlier_idx long_step [0] unit_skeleton 1)
   \<and> median_idx long_step [0] (0, 0, 0) unit_skeleton 1
       = drop_members (com_filter long_step (0, 0, 0) (unit_skeleton ! 1))
           (outlier_idx long_step [0] unit_skeleton 1)"
proof -
  from outlier_crossings_only_boundary_filtered [of 2 long_step "[0]" unit_skeleton 1 "(0, 0, 0)"]
  have "median_idx long_step [0] (0, 0, 0) unit_skeleton 1
       = drop_members (com_filter long_step (0, 0, 0) (unit_skeleton ! 1))
           (outlier_idx long_step [0] unit_skeleton 1)"
    by (rule conjunct2)
  then show ?thesis using long_step_outlier_idx by simp
qed

section \<open>The tie-break of the orientation\<close>

lemma vote_positive_components:
  "vote m_start m_end = 2 * int (positive_components m_start m_end) - 3"
  by (cases m_start, cases m_end) (simp add: vote_def positive_components_def coords_def)

text \<open>
  Claim C8, amended. When neither the dominant-axis rule nor the smallest-axis rule
  applies, the vote is the sum over the three coordinate axes of the sign (1 when
  positive, -1 otherwise) of the component of \<open>m_start - m_end\<close>, the difference of the
  two means; the ends are swapped exactly when the vote is positive, that is when at
  least two of the three components are positive.
\<close>

theorem tie_break_votes_on_mean_components:
  "\<not> dominant_rule m_start m_end \<Longrightarrow> \<not> smallest_rule m_start m_end \<Longrightarrow>
     vote m_start m_end = 2 * int (positive_components m_start m_end) - 3
     \<and> orient m_start m_end
         = (if 2 \<le> positive_components m_start m_end then (m_end, m_start)
            else (m_start, m_end))"
  using vote_positive_components [of m_start m_end]
  by (auto simp: orient_def Let_def)

lemma unit_diagonal_rules:
  "\<not> dominant_rule (1, 1, 1) (0, 0, 0) \<and> \<not> smallest_rule (1, 1, 1) (0, 0, 0)"
  by code_simp

theorem tie_break_votes_on_mean_components_witness:
  "\<not> dominant_rule (1, 1, 1) (0, 0, 0) \<and> \<not> smallest_rule (1, 1, 1) (0, 0, 0)
   \<and> vote (1, 1, 1) (0, 0, 0) = 3
   \<and> orient (1, 1, 1) (0, 0, 0) = ((0, 0, 0), (1, 1, 1))"
proof -
  have p: "positive_components (1, 1, 1) (0, 0, 0) = 3" by code_simp
  from unit_diagonal_rules
    tie_break_votes_on_mean_components [of "(1, 1, 1)" "(0, 0, 0)"]
  show ?thesis by (simp add: p)
qed

text \<open>The vote over every streamline can be positive when the vote of the code is not:
  here the long streamline is the only one selected, no rule applies to the two means,
  the streamlines vote 3, and the ends are not swapped.\<close>

theorem tie_break_curve_vote_counterexample:
  "\<not> dominant_rule (0, 0, 0) (10, 10, 10)
   \<and> \<not> smallest_rule (0, 0, 0) (10, 10, 10)
   \<and> spec_curve_vote three_starts three_ends > 0
   \<and> resolve_ends three_starts three_ends [True, False, False]
       = ((0, 0, 0), (10, 10, 10))"
  unfolding three_starts_def three_ends_def by code_simp

section \<open>The node references of the section partitioner\<close>

lemma m_previous_first: "point_array \<noteq> [] \<Longrightarrow> m_previous point_array 1 = last point_array"
  by (cases point_array rule: rev_cases) (auto simp: m_previous_def py_index_def Let_def nth_append)

lemma m_previous_later:
  "2 \<le> i \<Longrightarrow> i < length point_array \<Longrightarrow> m_previous point_array i = point_array ! (i - 2)"
  by (auto simp: m_previous_def py_index_def Let_def nat_diff_distrib)

lemma m_next_last:
  "Suc i = length point_array \<Longrightarrow> m_next point_array i = point_array ! i"
  by (auto simp: m_next_def py_index_def Let_def)

lemma m_next_inner:
  "Suc i < length point_array \<Longrightarrow> m_next point_array i = point_array ! (i + 1)"
  by (auto simp: m_next_def py_index_def Let_def nat_add_distrib)

text \<open>
  Claim C9. For the first section the code reads \<^verbatim>\<open>point_array[-1]\<close>, which is the last
  node and raises nothing, so the reference is the last node and not \<open>node[i - 1]\<close>.
  The reference \<open>node[i + 1]\<close> of the last section does fall back to \<open>node[i]\<close>.
\<close>

theorem first_section_previous_node_wraps:
  "m_previous [(0, 0, 0), (0, 0, 1), (0, 0, 2)] 1 = (0, 0, 2)
   \<and> [(0, 0, 0), (0, 0, 1), (0, 0, 2::real)] ! (1 - 1) = (0, 0, 0::real)"
  by (simp add: m_previous_def py_index_def)

section \<open>The cap on the removed streamlines\<close>

text \<open>
  Claim C2. With four streamlines and \<^verbatim>\<open>keep_ratio\<close> 1/2, two streamlines are flagged
  by position (which does not exceed the cap) and a third one by direction: three of
  the four streamlines are removed, and only streamline 3 is written back.
\<close>

theorem direction_pass_exceeds_keep_ratio:
  "positional_outliers 4 [[0, 0, 0, 0], [1 / 5, 1 / 5, 1 / 2, 1 / 2], [0, 0, 0, 0]] (4 / 5)
     (1 / 2) (1 / 2) = Column [0, 1]
   \<and> remove_outlier_streamlines 4 [[0, 0, 0, 0], [1 / 5, 1 / 5, 1 / 2, 1 / 2], [0, 0, 0, 0]]
       (4 / 5) (1 / 2) (1 / 2) True [2] = Inr [3]
   \<and> real (4 - length [3::nat]) > (1 / 2) * 4"
  by code_simp

text \<open>Without the direction pass, and for a \<^verbatim>\<open>keep_ratio\<close> that is not negative, at
  most \<open>keep_ratio * n_curves\<close> streamlines are removed.\<close>

lemma length_column_count: "length (column_count n_curves p rows) = n_curves"
  by (simp add: column_count_def)

lemma py_prefix_length:
  "0 \<le> k \<Longrightarrow> length (py_prefix k xs) \<le> nat k"
  by (simp add: py_prefix_def)

lemma positional_outliers_capped:
  assumes "0 \<le> keep_ratio"
  shows "real (length (entries (positional_outliers n_curves dens t outlier_ratio keep_ratio)))
           \<le> keep_ratio * real n_curves"
proof -
  let ?n_sign = "column_count n_curves (\<lambda>b. b) (outliers_of dens t)"
  let ?n_val = "column_count n_curves (\<lambda>d. d > 0) dens"
  let ?n_idx = "filter (\<lambda>c. real (?n_sign ! c) > real (?n_val ! c) * outlier_ratio)
                    [0..<n_curves]"
  show ?thesis
  proof (cases "real (length ?n_idx) > keep_ratio * real (length ?n_sign)")
    case False
    then show ?thesis
      by (simp add: positional_outliers_def Let_def length_column_count)
  next
    case True
    have nn: "0 \<le> real n_curves * keep_ratio" using assms by simp
    then have k: "0 \<le> py_int (real n_curves * keep_ratio)" by (simp add: py_int_def)
    have "real (length (py_prefix (py_int (real n_curves * keep_ratio))
                  (argsort_decreasing ?n_sign)))
            \<le> real (nat (py_int (real n_curves * keep_ratio)))"
      using py_prefix_length [OF k] by (simp only: of_nat_le_iff)
    also have "\<dots> = real_of_int \<lfloor>real n_curves * keep_ratio\<rfloor>"
      using nn by (simp add: py_int_def)
    also have "\<dots> \<le> real n_curves * keep_ratio" by (rule of_int_floor_le)
    finally show ?thesis
      using True by (simp add: positional_outliers_def Let_def length_column_count mult.commute)
  qed
qed

lemma removed_at_most_listed:
  "n_curves - length (remove_streamlines n_curves idx) \<le> length (entries idx)"
proof -
  let ?E = "set (entries idx)"
  have "length (filter (\<lambda>i. i \<in> ?E) [0..<n_curves])
          + length (filter (\<lambda>i. i \<notin> ?E) [0..<n_curves]) = n_curves"
    using sum_length_filter_compl [of "\<lambda>i. i \<in> ?E" "[0..<n_curves]"] by simp
  then have "n_curves - length (remove_streamlines n_curves idx)
               = length (filter (\<lambda>i. i \<in> ?E) [0..<n_curves])"
    by (simp add: remove_streamlines_def)
  also have "\<dots> = card (set (filter (\<lambda>i. i \<in> ?E) [0..<n_curves]))"
    by (rule distinct_card [symmetric]) simp
  also have "\<dots> \<le> card ?E" by (intro card_mono) auto
  also have "\<dots> \<le> length (entries idx)" by (rule card_length)
  finally show ?thesis .
qed

lemma positional_pass_respects_keep_ratio:
  assumes "0 \<le> keep_ratio"
  shows "\<exists>kept. remove_outlier_streamlines n_curves dens t outlier_ratio keep_ratio False
                  n_idx_gaus = Inr kept
               \<and> real (n_curves - length kept) \<le> keep_ratio * real n_curves"
proof -
  let ?idx = "positional_outliers n_curves dens t outlier_ratio keep_ratio"
  have "real (n_curves - length (remove_streamlines n_curves ?idx))
          \<le> real (length (entries ?idx))"
    using removed_at_most_listed [of n_curves ?idx] by (simp only: of_nat_le_iff)
  also have "\<dots> \<le> keep_ratio * real n_curves" by (rule positional_outliers_capped [OF assms])
  finally show ?thesis by (simp add: remove_outlier_streamlines_def Let_def)
qed

section \<open>The labelled volume of the section partitioner\<close>

lemma length_xyz_flat: "length (xyz_flat sh) = n_voxels sh"
  by (simp add: xyz_flat_def)

lemma length_sign_mp_slice: "length (sign_mp_slice sh point_array i) = n_voxels sh"
  by (simp add: sign_mp_slice_def Let_def length_xyz_flat)

lemma sign_mp_slice_values:
  "v < n_voxels sh \<Longrightarrow>
     sign_mp_slice sh point_array i ! v = 0 \<or> sign_mp_slice sh point_array i ! v = 1"
  by (simp add: sign_mp_slice_def Let_def length_xyz_flat)

lemma length_sign_mp_com: "length (sign_mp_com sh center midpoint) = n_voxels sh"
  by (simp add: sign_mp_com_def length_xyz_flat)

lemma sign_mp_com_values:
  "v < n_voxels sh \<Longrightarrow>
     sign_mp_com sh center midpoint ! v = 0 \<or> sign_mp_com sh center midpoint ! v = 1"
  by (simp add: sign_mp_com_def length_xyz_flat)

lemma length_vol_mult: "length (vol_mult a b) = min (length a) (length b)"
  by (simp add: vol_mult_def)

lemma nth_vol_mult:
  "v < length a \<Longrightarrow> v < length b \<Longrightarrow> vol_mult a b ! v = a ! v * b ! v"
  by (simp add: vol_mult_def)

lemma length_vol_add: "length (vol_add a b) = min (length a) (length b)"
  by (simp add: vol_add_def)

lemma nth_vol_add:
  "v < length a \<Longrightarrow> v < length b \<Longrightarrow> vol_add a b ! v = a ! v + b ! v"
  by (simp add: vol_add_def)

lemma flood_withinD:
  "flood_within img seed lo hi flags \<Longrightarrow> v < length img \<Longrightarrow> flags ! v \<Longrightarrow>
     v = seed \<or> (lo \<le> img ! v \<and> img ! v \<le> hi)"
  by (auto simp: flood_within_def list_all_iff)

lemma flood_grow_within:
  "flood_within img seed lo hi flags \<Longrightarrow>
     flood_within img seed lo hi (flood_grow sh img lo hi flags)"
  by (auto simp: flood_within_def flood_grow_def list_all_iff)

lemma funpow_invariant: "P x \<Longrightarrow> (\<And>y. P y \<Longrightarrow> P (f y)) \<Longrightarrow> P ((f ^^ n) x)"
  by (induction n) auto

lemma flood_within_tolerance:
  "flood_within img seed (img ! seed - tolerance) (img ! seed + tolerance)
     (flood sh img seed tolerance)"
  unfolding flood_def Let_def
proof (rule funpow_invariant
    [where P = "flood_within img seed (img ! seed - tolerance) (img ! seed + tolerance)"])
  show "flood_within img seed (img ! seed - tolerance) (img ! seed + tolerance)
          (map (\<lambda>v. v = seed) [0..<length img])"
    by (auto simp: flood_within_def list_all_iff)
qed (rule flood_grow_within)

lemma axis_index_less: "axis_index n k = Some x \<Longrightarrow> x < n"
  by (auto simp: axis_index_def split: if_splits)

lemma flat_index_less:
  assumes "x < nx" and "y < ny" and "z < (nz::nat)"
  shows "(x * ny + y) * nz + z < nx * ny * nz"
proof -
  have "x * ny + y < Suc x * ny" using assms(2) by simp
  also have "\<dots> \<le> nx * ny" using assms(1) by (intro mult_le_mono1) simp
  finally have xy: "Suc (x * ny + y) \<le> nx * ny" by simp
  have "(x * ny + y) * nz + z < Suc (x * ny + y) * nz" using assms(3) by simp
  also have "\<dots> \<le> nx * ny * nz" using xy by (intro mult_le_mono1)
  finally show ?thesis .
qed

lemma seed_voxel_less: "seed_voxel sh p = Some seed \<Longrightarrow> seed < n_voxels sh"
proof -
  obtain nx ny nz where sh: "sh = (nx, ny, nz)" by (cases sh) auto
  obtain a b c where p: "p = (a, b, c)" by (cases p) auto
  assume "seed_voxel sh p = Some seed"
  then obtain x y z where "axis_index nx \<lfloor>a\<rfloor> = Some x" "axis_index ny \<lfloor>b\<rfloor> = Some y"
    "axis_index nz \<lfloor>c\<rfloor> = Some z" "seed = (x * ny + y) * nz + z"
    by (auto simp: sh p split: option.splits)
  then show ?thesis
    using flat_index_less [of x nx y ny z nz] by (auto simp: sh dest: axis_index_less)
qed

lemma for_each_total:
  "(\<And>i s. \<exists>s'. body i s = Inr s') \<Longrightarrow> \<exists>s'. for_each body xs s = Inr s'"
proof (induction xs arbitrary: s)
  case Nil
  then show ?case by simp
next
  case (Cons x xs)
  from Cons.prems obtain s1 where "body x s = Inr s1" by blast
  then show ?case using Cons.IH [OF Cons.prems, of s1] by simp
qed

lemma labels_okD:
  "labels_ok sh trk_roi node_count labels \<Longrightarrow> v < n_voxels sh \<Longrightarrow> labels ! v \<noteq> 0 \<Longrightarrow>
     1 \<le> labels ! v \<and> labels ! v \<le> node_count - 1 \<and> trk_roi ! v = 1"
  unfolding labels_ok_def list_all_iff by (metis atLeastLessThan_iff le0 set_upt)

lemma relabel_ok:
  assumes ok: "labels_ok sh trk_roi node_count labels"
    and len: "length roi = n_voxels sh"
    and i: "1 \<le> i" "i < node_count"
    and inside: "\<And>v. v < n_voxels sh \<Longrightarrow> roi ! v = (2::int) \<Longrightarrow> trk_roi ! v = 1"
  shows "labels_ok sh trk_roi node_count
           (map (\<lambda>rm. if fst rm = 2 then i else snd rm) (zip roi labels))"
  using assms by (auto simp: labels_ok_def list_all_iff)

lemma section_step_ok:
  assumes trk: "length trk_roi = n_voxels sh" "set trk_roi \<subseteq> {0, 1}"
    and i: "1 \<le> i" "i < length point_array"
    and ok: "labels_ok sh trk_roi (length point_array) labels"
    and step: "section_step sh trk_roi center point_array simplify_shape i labels = Inr labels'"
  shows "labels_ok sh trk_roi (length point_array) labels'"
proof -
  let ?midpoint = "vdiv (vadd (point_array ! (i - 1)) (point_array ! i)) 2"
  let ?slice = "vol_mult (sign_mp_slice sh point_array i) trk_roi"
  let ?com = "vol_mult (sign_mp_com sh center ?midpoint) trk_roi"
  let ?roi = "vol_add ?slice ?com"
  let ?label = "\<lambda>roi. map (\<lambda>rm. if fst rm = 2 then i else snd rm) (zip roi labels)"
  have lens: "length ?slice = n_voxels sh" "length ?com = n_voxels sh" "length ?roi = n_voxels sh"
    by (simp_all add: length_vol_mult length_vol_add length_sign_mp_slice length_sign_mp_com trk)
  have bin: "trk_roi ! v = 0 \<or> trk_roi ! v = 1" if "v < n_voxels sh" for v
    using trk that by (metis insert_iff nth_mem singletonD subsetD)
  have slice: "?slice ! v = sign_mp_slice sh point_array i ! v * trk_roi ! v"
    if "v < n_voxels sh" for v
    using that by (simp add: nth_vol_mult length_sign_mp_slice trk)
  have com: "?com ! v = sign_mp_com sh center ?midpoint ! v * trk_roi ! v"
    if "v < n_voxels sh" for v
    using that by (simp add: nth_vol_mult length_sign_mp_com trk)
  have roi: "?roi ! v = ?slice ! v + ?com ! v" if "v < n_voxels sh" for v
    using that lens by (simp add: nth_vol_add)
  have slice01: "?slice ! v = 0 \<or> ?slice ! v = 1" if "v < n_voxels sh" for v
    using slice [OF that] bin [OF that] sign_mp_slice_values [OF that, of point_array i] by auto
  have com01: "?com ! v = 0 \<or> ?com ! v = 1" if "v < n_voxels sh" for v
    using com [OF that] bin [OF that] sign_mp_com_values [OF that, of center ?midpoint] by auto
  have slice_in: "trk_roi ! v = 1" if "v < n_voxels sh" "?slice ! v \<noteq> 0" for v
    using slice [OF that(1)] bin [OF that(1)] that(2) by auto
  have roi2: "?slice ! v = 1 \<and> trk_roi ! v = 1" if "v < n_voxels sh" "?roi ! v = 2" for v
    using roi [OF that(1)] slice01 [OF that(1)] com01 [OF that(1)] that(2)
      slice_in [OF that(1)] by auto
  have plain: "labels_ok sh trk_roi (length point_array) (?label ?roi)"
    by (rule relabel_ok [OF ok lens(3) i]) (use roi2 in blast)
  show ?thesis
  proof (cases simplify_shape)
    case False
    with step plain show ?thesis by (simp add: section_step_def Let_def)
  next
    case True
    with step obtain seed where sv: "seed_voxel sh ?midpoint = Some seed"
      by (auto simp: section_step_def Let_def split: option.splits)
    have seed: "seed < n_voxels sh" by (rule seed_voxel_less [OF sv])
    show ?thesis
    proof (cases "?roi ! seed = 2")
      case False
      with step True sv plain show ?thesis by (simp add: section_step_def Let_def)
    next
      case r2: True
      let ?img = "vol_mult ?roi ?slice"
      let ?connec = "flood sh ?img seed 1"
      let ?roi' = "map (\<lambda>b. if b then 2 else (0::int)) ?connec"
      have limg: "length ?img = n_voxels sh" using lens by (simp add: length_vol_mult)
      have img: "?img ! v = ?roi ! v * ?slice ! v" if "v < n_voxels sh" for v
        using that lens by (simp add: nth_vol_mult)
      have seedval: "?img ! seed = 2" using img [OF seed] roi2 [OF seed r2] r2 by simp
      note fw = flood_within_tolerance [of ?img seed 1 sh]
      have lconn: "length ?connec = n_voxels sh" using fw limg by (simp add: flood_within_def)
      have inside: "trk_roi ! v = 1" if v: "v < n_voxels sh" and f: "?roi' ! v = 2" for v
      proof -
        from f v lconn have "?connec ! v" by (simp split: if_splits)
        from flood_withinD [OF fw _ this] v limg
        have "v = seed \<or> 1 \<le> ?img ! v" using seedval by auto
        then show ?thesis
        proof
          assume "v = seed"
          then show ?thesis using roi2 [OF seed r2] by simp
        next
          assume "1 \<le> ?img ! v"
          then have "?slice ! v \<noteq> 0" using img [OF v] by auto
          then show ?thesis by (rule slice_in [OF v])
        qed
      qed
      have "labels_ok sh trk_roi (length point_array) (?label ?roi')"
        by (rule relabel_ok [OF ok _ i]) (use lconn inside in auto)
      moreover have "labels' = ?label ?roi'"
        using step True sv r2 by (simp add: section_step_def Let_def)
      ultimately show ?thesis by simp
    qed
  qed
qed

lemma labels_ok_zeros: "labels_ok sh trk_roi node_count (replicate (n_voxels sh) 0)"
  by (simp add: labels_ok_def list_all_iff)

lemma sections_labels_ok:
  assumes trk: "length trk_roi = n_voxels sh" "set trk_roi \<subseteq> {0, 1}"
    and run: "get_roi_sections_from_nodes sh trk_roi center point_array simplify_shape
                = Inr labels"
  shows "labels_ok sh trk_roi (length point_array) labels"
proof -
  from run have r: "for_each (section_step sh trk_roi center point_array simplify_shape)
      [1..<length point_array] (replicate (n_voxels sh) 0) = Inr labels"
    by (simp add: get_roi_sections_from_nodes_def trk)
  show ?thesis
  proof (rule for_each_invariant [OF r, where P = "labels_ok sh trk_roi (length point_array)"])
    show "labels_ok sh trk_roi (length point_array) (replicate (n_voxels sh) 0)"
      by (rule labels_ok_zeros)
  next
    fix i s s'
    assume "i \<in> set [1..<length point_array]"
      and "labels_ok sh trk_roi (length point_array) s"
      and "section_step sh trk_roi center point_array simplify_shape i s = Inr s'"
    then show "labels_ok sh trk_roi (length point_array) s'"
      using section_step_ok [OF trk, of i point_array s center simplify_shape s'] by simp
  qed
qed

lemma section_step_plain:
  "\<exists>labels'. section_step sh trk_roi center point_array False i labels = Inr labels'"
  unfolding section_step_def Let_def by (simp only: if_False) blast

lemma sections_plain_returns:
  "\<exists>labels. get_roi_sections_from_nodes sh trk_roi center point_array False = Inr labels"
  unfolding get_roi_sections_from_nodes_def
  by (rule for_each_total) (rule section_step_plain)

text \<open>
  Claim C6. For an occupancy mask of zeros and ones, without \<^verbatim>\<open>simplify_shape\<close> the
  function always returns, and whatever \<^verbatim>\<open>get_roi_sections_from_nodes\<close> returns, with
  or without \<^verbatim>\<open>simplify_shape\<close>, is a volume of the shape of the mask in which every
  non-zero label is between 1 and \<open>node_count - 1\<close> and sits on a voxel of the mask.
\<close>

theorem sections_labels_in_range_and_in_mask:
  assumes "length trk_roi = n_voxels sh" and "set trk_roi \<subseteq> {0, 1}"
  shows "(\<exists>labels. get_roi_sections_from_nodes sh trk_roi center point_array False = Inr labels)
    \<and> (\<forall>simplify_shape labels.
          get_roi_sections_from_nodes sh trk_roi center point_array simplify_shape = Inr labels
          \<longrightarrow> length labels = n_voxels sh
              \<and> (\<forall>v < n_voxels sh. labels ! v \<noteq> 0 \<longrightarrow>
                    1 \<le> labels ! v \<and> labels ! v \<le> length point_array - 1
                    \<and> trk_roi ! v = 1))"
proof (rule conjI)
  show "\<exists>labels. get_roi_sections_from_nodes sh trk_roi center point_array False = Inr labels"
    by (rule sections_plain_returns)
  show "\<forall>simplify_shape labels.
          get_roi_sections_from_nodes sh trk_roi center point_array simplify_shape = Inr labels
          \<longrightarrow> length labels = n_voxels sh
              \<and> (\<forall>v < n_voxels sh. labels ! v \<noteq> 0 \<longrightarrow>
                    1 \<le> labels ! v \<and> labels ! v \<le> length point_array - 1
                    \<and> trk_roi ! v = 1)"
  proof (intro allI impI)
    fix simplify_shape labels
    assume "get_roi_sections_from_nodes sh trk_roi center point_array simplify_shape
              = Inr labels"
    from sections_labels_ok [OF assms this]
    have ok: "labels_ok sh trk_roi (length point_array) labels" .
    have len: "length labels = n_voxels sh" using ok unfolding labels_ok_def by (rule conjunct1)
    have "1 \<le> labels ! v \<and> labels ! v \<le> length point_array - 1 \<and> trk_roi ! v = 1"
      if "v < n_voxels sh" "labels ! v \<noteq> 0" for v
      using labels_okD [OF ok that] .
    with len show "length labels = n_voxels sh
              \<and> (\<forall>v < n_voxels sh. labels ! v \<noteq> 0 \<longrightarrow>
                    1 \<le> labels ! v \<and> labels ! v \<le> length point_array - 1
                    \<and> trk_roi ! v = 1)"
      by blast
  qed
qed

lemma column_sections:
  "get_roi_sections_from_nodes (1, 1, 3) column_mask (1 / 2, 1 / 2, - 3) column_skeleton True
     = Inr [1, 1, 0]"
  unfolding column_mask_def column_skeleton_def by code_simp

lemma column_sections_plain:
  "get_roi_sections_from_nodes (1, 1, 3) column_mask (1 / 2, 1 / 2, - 3) column_skeleton False
     = Inr [1, 1, 0]"
  unfolding column_mask_def column_skeleton_def by code_simp

theorem sections_labels_in_range_and_in_mask_witness:
  "length column_mask = n_voxels (1, 1, 3) \<and> set column_mask \<subseteq> {0, 1}
   \<and> get_roi_sections_from_nodes (1, 1, 3) column_mask (1 / 2, 1 / 2, - 3) column_skeleton True
       = Inr [1, 1, 0]
   \<and> get_roi_sections_from_nodes (1, 1, 3) column_mask (1 / 2, 1 / 2, - 3) column_skeleton False
       = Inr [1, 1, 0]
   \<and> [1, 1, 0::nat] ! 0 = 1
   \<and> [1, 1, 0::nat] ! 0 \<le> length column_skeleton - 1
   \<and> column_mask ! 0 = 1"
proof -
  have h1: "length column_mask = n_voxels (1, 1, 3)" by (simp add: column_mask_def)
  have h2: "set column_mask \<subseteq> {0, 1}" by (simp add: column_mask_def)
  have v: "(0::nat) < n_voxels (1, 1, 3)" and nz: "[1, 1, 0::nat] ! 0 \<noteq> 0"
    by simp_all
  from sections_labels_in_range_and_in_mask [OF h1 h2, of "(1 / 2, 1 / 2, - 3)" column_skeleton]
    column_sections v nz
  have "[1, 1, 0::nat] ! 0 \<le> length column_skeleton - 1 \<and> column_mask ! 0 = 1"
    by blast
  then show ?thesis using h1 h2 column_sections column_sections_plain by simp
qed

end
